theory Spec2Isabelle
  imports Main "HOL-Library.Word" "HOL-Library.AList"
begin

section \<open>Data model\<close>

subsection \<open>Decoded values\<close>

text \<open>
  The decoders return Go \<^verbatim>\<open>interface{}\<close> values. \<open>VNil\<close> is the untyped nil
  interface, the only value for which the source's test \<^verbatim>\<open>value == nil\<close> holds.
  A slice is a list; the nil slice is the empty list (the code under study never builds a
  non-nil empty slice). A \<^verbatim>\<open>map[string]interface{}\<close> is an association list read
  with \<open>map_of\<close> and written with \<open>AList.update\<close>; \<open>None\<close> is the nil map. A slice
  or map stored in an interface is never \<open>VNil\<close>, also when the slice or map itself is nil.
  \<open>IntV\<close> holds a Go \<^verbatim>\<open>int\<close> (64 bits here), \<open>Strs\<close> a \<^verbatim>\<open>[]string\<close>.
  A \<^verbatim>\<open>float64\<close> is its 64-bit pattern; the code does no arithmetic on it.
\<close>

type_synonym float64 = "64 word"

datatype val =
    VNil
  | Str string
  | Int32 "32 word"
  | Int64 "64 word"
  | IntV "64 word"
  | Float64 float64
  | Bool bool
  | Arr "val list"
  | Strs "string list"
  | Obj "(string \<times> val) list option"

subsection \<open>Errors\<close>

text \<open>
  \<^verbatim>\<open>ParseErrorKind\<close> and \<^verbatim>\<open>ParseError\<close>. A path segment is a property name or an
  array index; \<open>Value\<close> is the offending raw string when there is one. The other
  constructors are the remaining error values the code handles: \<open>ErrorString\<close> for
  \<^verbatim>\<open>errors.New\<close> and \<^verbatim>\<open>fmt.Errorf\<close> without \<^verbatim>\<open>%w\<close>, \<open>Wrapped\<close> for
  \<^verbatim>\<open>fmt.Errorf\<close> with a message ending in \<^verbatim>\<open>%w\<close>, the sentinel
  \<^verbatim>\<open>http.ErrNoCookie\<close>, which the code compares by identity, and the errors of
  \<^verbatim>\<open>strconv\<close>: a \<^verbatim>\<open>*NumError\<close> with the function's name, the input and one of the two
  sentinels \<^verbatim>\<open>ErrSyntax\<close> and \<^verbatim>\<open>ErrRange\<close>, and such a sentinel on its own
  (\<open>Strconv\<close>).
\<close>

datatype strconvErr = ErrSyntax | ErrRange

datatype ParseErrorKind = KindOther | KindUnsupportedFormat | KindInvalidFormat

datatype seg = Key string | Idx nat

datatype err =
    ParseError (Kind: ParseErrorKind) (Value: "string option") (Reason: string)
               (Cause: "err option") (path: "seg list")
  | ErrorString string
  | Wrapped string err
  | ErrNoCookie
  | NumError string string strconvErr
  | Strconv strconvErr

subsection \<open>Schemas, serialization methods, parameters\<close>

text \<open>
  The fields of \<^verbatim>\<open>openapi3.Schema\<close> that the decoders read. A schema reference is
  taken as resolved, so \<^verbatim>\<open>*SchemaRef\<close> is \<open>Schema option\<close> with \<open>None\<close> the nil
  pointer. \<open>Type\<close> is \<open>None\<close> for an untyped schema. \<open>Properties\<close> is a Go map:
  the list gives the order in which one run iterates over it.
\<close>

datatype Schema = Schema
  (Type: "string list option")
  (Format: string)
  (AllOf: "Schema list")
  (AnyOf: "Schema list")
  (OneOf: "Schema list")
  (Not_s: "Schema option")
  (Pattern: string)
  (Properties: "(string \<times> Schema) list")
  (Items: "Schema option")
  (AdditionalProperties_Has: "bool option")
  (AdditionalProperties_Schema: "Schema option")

record SerializationMethod =
  Style :: string
  Explode :: bool

record Parameter =
  Name :: string
  In :: string
  Required :: bool
  Schema_p :: "Schema option"
  Style_p :: string
  Explode_p :: bool

text \<open>
  Modelled from the spec: the type-set tests of \<^verbatim>\<open>openapi3.Types\<close>, whose source is
  not among the files. \<open>Is\<close> holds when the type set is exactly the one given type,
  \<open>Slice\<close> lists the types (none for an untyped schema). What \<^verbatim>\<open>Permits\<close> answers is a
  parameter of the model, see \<open>externals\<close>.
\<close>

definition Is :: "string list option \<Rightarrow> string \<Rightarrow> bool" where
  "Is t typ = (t = Some [typ])"

definition Slice :: "string list option \<Rightarrow> string list" where
  "Slice t = (case t of None \<Rightarrow> [] | Some ts \<Rightarrow> ts)"

subsection \<open>Functions defined outside the files under study\<close>

text \<open>
  The Go standard library functions the decoders call (\<^verbatim>\<open>strconv\<close>, \<^verbatim>\<open>%q\<close>
  quoting, the rune split of \<^verbatim>\<open>strings.Split\<close> with an empty separator,
  \<^verbatim>\<open>http.CanonicalHeaderKey\<close>, the \<^verbatim>\<open>%s\<close> form of a \<^verbatim>\<open>*Types\<close>) and the
  functions of this repository that are not among the files (\<^verbatim>\<open>Types.Permits\<close>,
  \<^verbatim>\<open>Parameter.SerializationMethod\<close>, \<^verbatim>\<open>parseMediaType\<close>). Every definition takes
  them as the argument \<open>ext\<close>, and every theorem holds for all of them. On failure the \<^verbatim>\<open>strconv\<close> functions return a
  \<^verbatim>\<open>*NumError\<close>, of which the model keeps the \<^verbatim>\<open>Err\<close> field; the function's name
  and the input are added where the code returns the whole error.
\<close>

record externals =
  ParseInt :: "string \<Rightarrow> nat \<Rightarrow> nat \<Rightarrow> strconvErr + 64 word"
  ParseFloat :: "string \<Rightarrow> nat \<Rightarrow> strconvErr + float64"
  ParseBool :: "string \<Rightarrow> strconvErr + bool"
  Atoi :: "string \<Rightarrow> strconvErr + 64 word"
  Quote :: "string \<Rightarrow> string"
  explode :: "string \<Rightarrow> string list"
  CanonicalHeaderKey :: "string \<Rightarrow> string"
  Permits :: "string list option \<Rightarrow> string \<Rightarrow> bool"
  Parameter_SerializationMethod :: "Parameter \<Rightarrow> err + SerializationMethod"
  parseMediaType :: "string \<Rightarrow> string"
  Sprint_Types :: "string list option \<Rightarrow> string"

section \<open>Primitive parser\<close>

text \<open>
  A function result is \<open>None\<close> when the Go code panics (nil dereference, failed type
  assertion, index out of range) and \<open>Some\<close> of the returned tuple otherwise.
\<close>

definition numErr :: "string \<Rightarrow> string \<Rightarrow> strconvErr \<Rightarrow> val \<times> err option" where
  "numErr raw typ e =
     (VNil, Some (ParseError KindInvalidFormat (Some raw) (''an invalid '' @ typ)
                    (Some (Strconv e)) []))"

definition parsePrimitiveCase :: "externals \<Rightarrow> string \<Rightarrow> Schema \<Rightarrow> string \<Rightarrow> val \<times> err option" where
  "parsePrimitiveCase ext raw schema typ =
     (if typ = ''integer'' then
        (if Format schema = ''int32'' then
           (case ParseInt ext raw 0 32 of
              Inl e \<Rightarrow> numErr raw typ e
            | Inr v \<Rightarrow> (Int32 (ucast v), None))
         else
           (case ParseInt ext raw 0 64 of
              Inl e \<Rightarrow> numErr raw typ e
            | Inr v \<Rightarrow> (Int64 v, None)))
      else if typ = ''number'' then
        (case ParseFloat ext raw 64 of
           Inl e \<Rightarrow> numErr raw typ e
         | Inr v \<Rightarrow> (Float64 v, None))
      else if typ = ''boolean'' then
        (case ParseBool ext raw of
           Inl e \<Rightarrow> numErr raw typ e
         | Inr v \<Rightarrow> (Bool v, None))
      else if typ = ''string'' then (Str raw, None)
      else (VNil, Some (ParseError KindOther (Some raw)
                         (''schema has non primitive type '' @ typ) None [])))"

text \<open>
  The loop of \<^verbatim>\<open>parsePrimitive\<close> over the schema's types: the named results \<open>(v, err)\<close>
  keep the last attempt's outcome, and the first attempt without error returns.
\<close>

fun parsePrimitiveLoop :: "externals \<Rightarrow> string \<Rightarrow> Schema \<Rightarrow> string list \<Rightarrow> val \<times> err option \<Rightarrow> val \<times> err option" where
  "parsePrimitiveLoop ext raw schema [] acc = acc"
| "parsePrimitiveLoop ext raw schema (typ # typs) acc =
     (case parsePrimitiveCase ext raw schema typ of
        (v, None) \<Rightarrow> (v, None)
      | (v, Some e) \<Rightarrow> parsePrimitiveLoop ext raw schema typs (v, Some e))"

definition parsePrimitive :: "externals \<Rightarrow> string \<Rightarrow> Schema option \<Rightarrow> (val \<times> err option) option" where
  "parsePrimitive ext raw schema =
     (if raw = [] then Some (VNil, None)
      else case schema of
        None \<Rightarrow> None
      | Some s \<Rightarrow> Some (parsePrimitiveLoop ext raw s (Slice (Type s)) (VNil, None)))"

section \<open>String helpers\<close>

text \<open>
  \<^verbatim>\<open>strings.Join\<close>, \<^verbatim>\<open>strings.HasPrefix\<close> and \<^verbatim>\<open>strings.Split\<close> on byte strings.
  With a non-empty separator \<^verbatim>\<open>Split\<close> cuts at the leftmost occurrences of the separator,
  which do not overlap, and always returns at least one piece; with the empty separator it
  returns the runes of the string (\<open>explode\<close>). \<open>itoa\<close> is the decimal form that
  \<^verbatim>\<open>%d\<close> and \<^verbatim>\<open>%v\<close> print for a non-negative integer.
\<close>

fun Join :: "string list \<Rightarrow> string \<Rightarrow> string" where
  "Join [] sep = []"
| "Join [x] sep = x"
| "Join (x # y # zs) sep = x @ sep @ Join (y # zs) sep"

definition HasPrefix :: "string \<Rightarrow> string \<Rightarrow> bool" where
  "HasPrefix s p = (length p \<le> length s \<and> take (length p) s = p)"

function splitOn :: "string \<Rightarrow> string \<Rightarrow> string \<Rightarrow> string list" where
  "splitOn sep cur s =
     (if sep \<noteq> [] \<and> HasPrefix s sep then rev cur # splitOn sep [] (drop (length sep) s)
      else (case s of [] \<Rightarrow> [rev cur] | c # cs \<Rightarrow> splitOn sep (c # cur) cs))"
  by pat_completeness auto
termination
  by (relation "measure (\<lambda>(sep, cur, s). length s)")
     (auto simp: HasPrefix_def length_greater_0_conv [symmetric] simp del: length_greater_0_conv)

declare splitOn.simps [simp del]

definition Split :: "externals \<Rightarrow> string \<Rightarrow> string \<Rightarrow> string list" where
  "Split ext s sep = (if sep = [] then explode ext s else splitOn sep [] s)"

function itoa :: "nat \<Rightarrow> string" where
  "itoa n = (if n < 10 then [char_of (48 + n)] else itoa (n div 10) @ [char_of (48 + n mod 10)])"
  by pat_completeness auto
termination
  by (relation "measure (\<lambda>n. n)") auto

definition getOrEmpty :: "(string \<times> string) list \<Rightarrow> string \<Rightarrow> string" where
  "getOrEmpty props k = (case map_of props k of None \<Rightarrow> [] | Some v \<Rightarrow> v)"

section \<open>Rendering of errors\<close>

text \<open>
  \<^verbatim>\<open>ParseError.Path\<close>, \<^verbatim>\<open>ParseError.innerError\<close> and \<^verbatim>\<open>ParseError.Error\<close>. A cause
  that is not a \<^verbatim>\<open>ParseError\<close> has no path and is rendered by its own \<^verbatim>\<open>Error\<close>
  method, which \<open>Error\<close> gives for every error value of the model.
\<close>

definition isParseError :: "err \<Rightarrow> bool" where
  "isParseError e = (case e of ParseError k v r c p \<Rightarrow> True | _ \<Rightarrow> False)"

definition isErrorString :: "err \<Rightarrow> bool" where
  "isErrorString e = (case e of ErrorString m \<Rightarrow> True | _ \<Rightarrow> False)"

fun Path :: "err \<Rightarrow> seg list" where
  "Path (ParseError k v r (Some c) p) = Path c @ p"
| "Path (ParseError k v r None p) = p"
| "Path (ErrorString m) = []"
| "Path (Wrapped m e) = []"
| "Path ErrNoCookie = []"
| "Path (NumError f n e) = []"
| "Path (Strconv e) = []"

definition fmt_seg :: "seg \<Rightarrow> string" where
  "fmt_seg s = (case s of Key k \<Rightarrow> k | Idx i \<Rightarrow> itoa i)"

definition strconvMessage :: "strconvErr \<Rightarrow> string" where
  "strconvMessage e = (case e of ErrSyntax \<Rightarrow> ''invalid syntax'' | ErrRange \<Rightarrow> ''value out of range'')"

fun innerError :: "externals \<Rightarrow> err \<Rightarrow> string" and Error :: "externals \<Rightarrow> err \<Rightarrow> string" where
  "innerError ext (ParseError k v r c p) =
     Join ((case v of None \<Rightarrow> [] | Some x \<Rightarrow> [''value '' @ x])
           @ (if r \<noteq> [] then [r] else [])
           @ (case c of None \<Rightarrow> []
              | Some e \<Rightarrow> (if isParseError e then [innerError ext e] else [Error ext e])))
          '': ''"
| "innerError ext (ErrorString m) = m"
| "innerError ext (Wrapped m e) = m @ Error ext e"
| "innerError ext ErrNoCookie = ''http: named cookie not present''"
| "innerError ext (NumError f n e) =
     ''strconv.'' @ f @ '': parsing '' @ Quote ext n @ '': '' @ strconvMessage e"
| "innerError ext (Strconv e) = strconvMessage e"
| "Error ext (ParseError k v r c p) =
     Join ((if Path (ParseError k v r c p) \<noteq> []
            then [''path '' @ Join (map fmt_seg (Path (ParseError k v r c p))) ''.''] else [])
           @ [innerError ext (ParseError k v r c p)])
          '': ''"
| "Error ext (ErrorString m) = m"
| "Error ext (Wrapped m e) = m @ Error ext e"
| "Error ext ErrNoCookie = ''http: named cookie not present''"
| "Error ext (NumError f n e) =
     ''strconv.'' @ f @ '': parsing '' @ Quote ext n @ '': '' @ strconvMessage e"
| "Error ext (Strconv e) = strconvMessage e"

definition invalidSerializationMethodErr :: "externals \<Rightarrow> SerializationMethod \<Rightarrow> err" where
  "invalidSerializationMethodErr ext sm =
     ErrorString (''invalid serialization method: style='' @ Quote ext (Style sm)
                  @ '', explode='' @ (if Explode sm then ''true'' else ''false''))"

section \<open>Arrays and composed schemas\<close>

definition cutPrefix :: "externals \<Rightarrow> string \<Rightarrow> string \<Rightarrow> string \<times> err option" where
  "cutPrefix ext raw prefix =
     (if prefix = [] then (raw, None)
      else if length raw < length prefix \<or> take (length prefix) raw \<noteq> prefix then
        ([], Some (ParseError KindInvalidFormat (Some raw)
                     (''a value must be prefixed with '' @ Quote ext prefix) None []))
      else (drop (length prefix) raw, None))"

text \<open>
  An item's error is wrapped with the item's index: in a \<^verbatim>\<open>ParseError\<close> whose path is
  the index when it is a \<^verbatim>\<open>ParseError\<close>, with \<^verbatim>\<open>fmt.Errorf("item %d: %w")\<close> otherwise.
\<close>

definition itemError :: "nat \<Rightarrow> err \<Rightarrow> err" where
  "itemError i e =
     (if isParseError e then ParseError KindOther None [] (Some e) [Idx i]
      else Wrapped (''item '' @ itoa i @ '': '') e)"

text \<open>
  The loop shared by the two \<^verbatim>\<open>parseArray\<close> functions, which differ in the parser
  \<open>f\<close> applied to an item. \<open>i\<close> is the index of the next item and \<open>value\<close> the slice
  built so far.
\<close>

fun parseArrayLoop :: "(string \<Rightarrow> (val \<times> err option) option) \<Rightarrow> nat \<Rightarrow> string list \<Rightarrow> val list
    \<Rightarrow> (val list \<times> err option) option" where
  "parseArrayLoop f i [] value = Some (value, None)"
| "parseArrayLoop f i (v # raw) value =
     (case f v of
        None \<Rightarrow> None
      | Some (item, Some e) \<Rightarrow> Some ([], Some (itemError i e))
      | Some (item, None) \<Rightarrow>
          (if item = VNil then Some ([], None)
           else parseArrayLoop f (Suc i) raw (value @ [item])))"

definition parseArray :: "externals \<Rightarrow> string list \<Rightarrow> Schema \<Rightarrow> (val list \<times> err option) option" where
  "parseArray ext raw schemaRef =
     parseArrayLoop (\<lambda>v. parsePrimitive ext v (Items schemaRef)) 0 raw []"

text \<open>
  The loops of \<^verbatim>\<open>urlValuesDecoder.parseValue\<close> over the members of \<^verbatim>\<open>allOf\<close>,
  \<^verbatim>\<open>anyOf\<close> and \<^verbatim>\<open>oneOf\<close>. Each takes the members' results in order and looks at
  no result after the one at which the Go loop leaves, so a panic in a later member does not
  count. The second argument is the state of the loop's variables.
\<close>

fun pv_allOf :: "(val \<times> err option) option list \<Rightarrow> val \<times> err option \<Rightarrow> (val \<times> err option) option" where
  "pv_allOf [] acc = Some acc"
| "pv_allOf (r # rs) acc =
     (case r of
        None \<Rightarrow> None
      | Some (value, e) \<Rightarrow> if value = VNil \<or> e \<noteq> None then Some (value, e) else pv_allOf rs (value, e))"

fun pv_anyOf :: "(val \<times> err option) option list \<Rightarrow> err option \<Rightarrow> (val \<times> err option) option" where
  "pv_anyOf [] e = Some (VNil, e)"
| "pv_anyOf (r # rs) e =
     (case r of
        None \<Rightarrow> None
      | Some (value, None) \<Rightarrow> Some (value, None)
      | Some (value, Some e') \<Rightarrow> pv_anyOf rs (Some e'))"

fun pv_oneOf :: "(val \<times> err option) option list \<Rightarrow> val \<times> nat \<Rightarrow> (val \<times> nat) option" where
  "pv_oneOf [] acc = Some acc"
| "pv_oneOf (r # rs) (value, isMatched) =
     (case r of
        None \<Rightarrow> None
      | Some (result, None) \<Rightarrow> pv_oneOf rs (result, Suc isMatched)
      | Some (result, Some e) \<Rightarrow> pv_oneOf rs (value, isMatched))"

definition oneOfFailed :: "nat \<Rightarrow> err" where
  "oneOfFailed isMatched =
     ErrorString (''decoding oneOf failed: '' @ itoa isMatched @ '' schemas matched'')"

definition notImplemented :: err where
  "notImplemented = ErrorString (''not implemented: decoding '' @ [CHR 0x27] @ ''not'' @ [CHR 0x27])"

function parseValue :: "externals \<Rightarrow> string \<Rightarrow> Schema \<Rightarrow> (val \<times> err option) option" where
  "parseValue ext v schema =
     (if AllOf schema \<noteq> [] then
        pv_allOf (map (\<lambda>sr. parseValue ext v sr) (AllOf schema)) (VNil, None)
      else if AnyOf schema \<noteq> [] then
        pv_anyOf (map (\<lambda>sr. parseValue ext v sr) (AnyOf schema)) None
      else if OneOf schema \<noteq> [] then
        (case pv_oneOf (map (\<lambda>sr. parseValue ext v sr) (OneOf schema)) (VNil, 0) of
           None \<Rightarrow> None
         | Some (value, isMatched) \<Rightarrow>
             if isMatched = 1 then Some (value, None)
             else Some (VNil, Some (oneOfFailed isMatched)))
      else if Not_s schema \<noteq> None then Some (VNil, Some notImplemented)
      else parsePrimitive ext v (Some schema))"
  by pat_completeness auto
termination
proof (relation "measure (\<lambda>(ext, v, schema). size schema)")
  show "wf (measure (\<lambda>(ext, v, schema). size schema))" by simp
next
  fix ext :: externals and v :: string and schema sr :: Schema
  assume "sr \<in> set (AllOf schema)"
  then have "size sr < size schema"
    by (cases schema) (auto dest: size_list_estimation' [where f = size, OF _ order_refl])
  then show "((ext, v, sr), (ext, v, schema)) \<in> measure (\<lambda>(ext, v, schema). size schema)" by simp
next
  fix ext :: externals and v :: string and schema sr :: Schema
  assume "sr \<in> set (AnyOf schema)"
  then have "size sr < size schema"
    by (cases schema) (auto dest: size_list_estimation' [where f = size, OF _ order_refl])
  then show "((ext, v, sr), (ext, v, schema)) \<in> measure (\<lambda>(ext, v, schema). size schema)" by simp
next
  fix ext :: externals and v :: string and schema sr :: Schema
  assume "sr \<in> set (OneOf schema)"
  then have "size sr < size schema"
    by (cases schema) (auto dest: size_list_estimation' [where f = size, OF _ order_refl])
  then show "((ext, v, sr), (ext, v, schema)) \<in> measure (\<lambda>(ext, v, schema). size schema)" by simp
qed

declare parseValue.simps [simp del]

definition urlValuesDecoder_parseArray :: "externals \<Rightarrow> string list \<Rightarrow> SerializationMethod \<Rightarrow> Schema
    \<Rightarrow> (val list \<times> err option) option" where
  "urlValuesDecoder_parseArray ext raw sm schemaRef =
     (case Items schemaRef of
        None \<Rightarrow> (if raw = [] then Some ([], None) else None)
      | Some items \<Rightarrow> parseArrayLoop (\<lambda>v. parseValue ext v items) 0 raw [])"

section \<open>Objects\<close>

definition urlDecoderDelimiter :: string where
  "urlDecoderDelimiter = [CHR 0x1F]"

definition propsFormatErr :: "string \<Rightarrow> string \<Rightarrow> string \<Rightarrow> err" where
  "propsFormatErr src propDelim valueDelim =
     ParseError KindInvalidFormat (Some src)
       (''a value must be a list of object'' @ [CHR 0x27] @ ''s properties in format ''
        @ [CHR 0x22] @ ''name'' @ valueDelim @ ''value'' @ [CHR 0x22]
        @ '' separated by '' @ propDelim) None []"

text \<open>
  The two loops of \<^verbatim>\<open>propsFromString\<close>. When the delimiters are equal the pieces are taken
  two at a time, a name and then its value; otherwise each piece is split into a name and
  a value. A later assignment to the same name replaces an earlier one.
\<close>

fun propsPaired :: "string list \<Rightarrow> (string \<times> string) list \<Rightarrow> (string \<times> string) list" where
  "propsPaired (k # v # pairs) props = propsPaired pairs (AList.update k v props)"
| "propsPaired pairs props = props"

fun propsSplit :: "externals \<Rightarrow> string \<Rightarrow> string \<Rightarrow> string \<Rightarrow> string list \<Rightarrow> (string \<times> string) list
    \<Rightarrow> (string \<times> string) list option \<times> err option" where
  "propsSplit ext src propDelim valueDelim [] props = (Some props, None)"
| "propsSplit ext src propDelim valueDelim (pair # pairs) props =
     (let prop = Split ext pair valueDelim in
      if length prop \<noteq> 2 then (None, Some (propsFormatErr src propDelim valueDelim))
      else propsSplit ext src propDelim valueDelim pairs (AList.update (prop ! 0) (prop ! 1) props))"

definition propsFromString :: "externals \<Rightarrow> string \<Rightarrow> string \<Rightarrow> string
    \<Rightarrow> (string \<times> string) list option \<times> err option" where
  "propsFromString ext src propDelim valueDelim =
     (let pairs = Split ext src propDelim in
      if propDelim = valueDelim then
        (if length pairs mod 2 \<noteq> 0 then (None, Some (propsFormatErr src propDelim valueDelim))
         else (Some (propsPaired pairs []), None))
      else propsSplit ext src propDelim valueDelim pairs [])"

fun deepGet :: "(string \<times> val) list option \<Rightarrow> string list \<Rightarrow> val \<times> bool" where
  "deepGet m [] = (Obj m, True)"
| "deepGet m (key # keys) =
     (case (case m of None \<Rightarrow> None | Some al \<Rightarrow> map_of al key) of
        None \<Rightarrow> (VNil, False)
      | Some (Obj m') \<Rightarrow> deepGet m' keys
      | Some v \<Rightarrow> (v, True))"

text \<open>
  \<^verbatim>\<open>deepSet\<close> mutates nested maps in place; the model returns the updated map. It panics
  on an empty key list (index \<open>-1\<close>), when a value on the way is not a map (failed type
  assertion) and when it would write into a nil map.
\<close>

fun deepSet :: "(string \<times> val) list \<Rightarrow> string list \<Rightarrow> val \<Rightarrow> (string \<times> val) list option" where
  "deepSet m [] v = None"
| "deepSet m [key] v = Some (AList.update key v m)"
| "deepSet m (key # k # keys) v =
     (case map_of m key of
        None \<Rightarrow>
          (case deepSet [] (k # keys) v of
             None \<Rightarrow> None
           | Some sub \<Rightarrow> Some (AList.update key (Obj (Some sub)) m))
      | Some (Obj (Some sub)) \<Rightarrow>
          (case deepSet sub (k # keys) v of
             None \<Rightarrow> None
           | Some sub' \<Rightarrow> Some (AList.update key (Obj (Some sub')) m))
      | Some other \<Rightarrow> None)"

fun findNestedSchema :: "externals \<Rightarrow> Schema \<Rightarrow> string list \<Rightarrow> err + Schema" where
  "findNestedSchema ext currentSchema [] = Inr currentSchema"
| "findNestedSchema ext currentSchema (key # keys) =
     (case map_of (Properties currentSchema) key of
        None \<Rightarrow>
          (case AdditionalProperties_Schema currentSchema of
             None \<Rightarrow> Inl (ErrorString (''nested schema for key '' @ Quote ext key @ '' not found''))
           | Some s \<Rightarrow> findNestedSchema ext s keys)
      | Some propertySchema \<Rightarrow> findNestedSchema ext propertySchema keys)"

text \<open>
  The loops of \<^verbatim>\<open>convertArrayParameterToType\<close>: empty strings are skipped, the first
  string that does not convert ends the loop with its error.
\<close>

fun convertItems :: "(string \<Rightarrow> err + val) \<Rightarrow> string list \<Rightarrow> val list \<Rightarrow> err + val list" where
  "convertItems f [] iarr = Inr iarr"
| "convertItems f (str # strArray) iarr =
     (if str = [] then convertItems f strArray iarr
      else case f str of
        Inl e \<Rightarrow> Inl e
      | Inr x \<Rightarrow> convertItems f strArray (iarr @ [x]))"

definition convertedArray :: "err + val list \<Rightarrow> val \<times> err option" where
  "convertedArray r = (case r of Inl e \<Rightarrow> (VNil, Some e) | Inr iarr \<Rightarrow> (Arr iarr, None))"

definition convertArrayParameterToType :: "externals \<Rightarrow> string list \<Rightarrow> string list option \<Rightarrow> val \<times> err option" where
  "convertArrayParameterToType ext strArray typ =
     (if Permits ext typ ''boolean'' then
        convertedArray (convertItems
          (\<lambda>str. map_sum (NumError ''ParseBool'' str) Bool (ParseBool ext str)) strArray [])
      else if Permits ext typ ''integer'' then
        convertedArray (convertItems
          (\<lambda>str. map_sum (NumError ''Atoi'' str) IntV (Atoi ext str)) strArray [])
      else if Permits ext typ ''number'' then
        convertedArray (convertItems
          (\<lambda>str. map_sum (NumError ''ParseFloat'' str) Float64 (ParseFloat ext str 64)) strArray [])
      else if Permits ext typ ''string'' then (Strs strArray, None)
      else (VNil, Some (ErrorString (''unsupported parameter array type: '' @ Sprint_Types ext typ))))"

definition pathFromKeys :: "string list \<Rightarrow> seg list" where
  "pathFromKeys kk = map Key kk"

definition handlePropParseError :: "externals \<Rightarrow> string list \<Rightarrow> err \<Rightarrow> err" where
  "handlePropParseError ext keys e =
     (if isParseError e then ParseError KindOther None [] (Some e) (pathFromKeys keys)
      else Wrapped (''property '' @ Quote ext (Join keys ''.'') @ '': '') e)"

text \<open>
  The part of \<^verbatim>\<open>makeObject\<close> that its two array branches share: the raw value is split
  at the delimiter, every piece is parsed against the items schema for its error only, and
  the pieces are converted by \<^verbatim>\<open>convertArrayParameterToType\<close>. A schema without
  \<^verbatim>\<open>items\<close> panics.
\<close>

fun checkItems :: "externals \<Rightarrow> string list \<Rightarrow> Schema option \<Rightarrow> err option option" where
  "checkItems ext [] items = Some None"
| "checkItems ext (v # vals) items =
     (case parsePrimitive ext v items of
        None \<Rightarrow> None
      | Some (x, Some e) \<Rightarrow> Some (Some e)
      | Some (x, None) \<Rightarrow> checkItems ext vals items)"

definition arrayProperty :: "externals \<Rightarrow> string \<Rightarrow> Schema \<Rightarrow> (err + val) option" where
  "arrayProperty ext raw arraySchema =
     (let vals = Split ext raw urlDecoderDelimiter in
      case checkItems ext vals (Items arraySchema) of
        None \<Rightarrow> None
      | Some (Some e) \<Rightarrow> Some (Inl e)
      | Some None \<Rightarrow>
          (case Items arraySchema of
             None \<Rightarrow> None
           | Some items \<Rightarrow>
               (case convertArrayParameterToType ext vals (Type items) of
                  (ivals, Some e) \<Rightarrow> Some (Inl e)
                | (ivals, None) \<Rightarrow> Some (Inr ivals))))"

text \<open>
  The inner loop of \<^verbatim>\<open>makeObject\<close> for a property of type object: it runs over the keys
  of \<open>props\<close> (the fifth argument is what is left of them) and sets every key that starts
  with the property's name and the delimiter.
\<close>

fun objectProperty :: "externals \<Rightarrow> Schema \<Rightarrow> (string \<times> string) list \<Rightarrow> string \<Rightarrow> (string \<times> string) list
    \<Rightarrow> (string \<times> val) list \<Rightarrow> (err + (string \<times> val) list) option" where
  "objectProperty ext schema props propName [] obj = Some (Inr obj)"
| "objectProperty ext schema props propName ((prop, x) # rest) obj =
     (if \<not> HasPrefix prop (propName @ urlDecoderDelimiter) then
        objectProperty ext schema props propName rest obj
      else
        (let mapKeys = Split ext prop urlDecoderDelimiter in
         case findNestedSchema ext schema mapKeys of
           Inl e \<Rightarrow> Some (Inl (ParseError KindOther None (Error ext e) None (pathFromKeys mapKeys)))
         | Inr nestedSchema \<Rightarrow>
             if Permits ext (Type nestedSchema) ''array'' then
               (case arrayProperty ext (getOrEmpty props prop) nestedSchema of
                  None \<Rightarrow> None
                | Some (Inl e) \<Rightarrow> Some (Inl (handlePropParseError ext mapKeys e))
                | Some (Inr ivals) \<Rightarrow>
                    (case deepSet obj mapKeys ivals of
                       None \<Rightarrow> None
                     | Some obj' \<Rightarrow> objectProperty ext schema props propName rest obj'))
             else
               (case parsePrimitive ext (getOrEmpty props prop) (Some nestedSchema) of
                  None \<Rightarrow> None
                | Some (value, Some e) \<Rightarrow> Some (Inl (handlePropParseError ext mapKeys e))
                | Some (value, None) \<Rightarrow>
                    (case deepSet obj mapKeys value of
                       None \<Rightarrow> None
                     | Some obj' \<Rightarrow> objectProperty ext schema props propName rest obj'))))"

text \<open>
  The loop of \<^verbatim>\<open>makeObject\<close> over the schema's properties, with the object built so far.
\<close>

fun makeObjectLoop :: "externals \<Rightarrow> Schema \<Rightarrow> (string \<times> string) list \<Rightarrow> (string \<times> Schema) list
    \<Rightarrow> (string \<times> val) list \<Rightarrow> ((string \<times> val) list option \<times> err option) option" where
  "makeObjectLoop ext schema props [] obj = Some (Some obj, None)"
| "makeObjectLoop ext schema props ((propName, propSchema) # rest) obj =
     (if Is (Type propSchema) ''array'' then
        (case arrayProperty ext (getOrEmpty props propName) propSchema of
           None \<Rightarrow> None
         | Some (Inl e) \<Rightarrow> Some (None, Some (handlePropParseError ext [propName] e))
         | Some (Inr ivals) \<Rightarrow> makeObjectLoop ext schema props rest (AList.update propName ivals obj))
      else if Is (Type propSchema) ''object'' then
        (case objectProperty ext schema props propName props obj of
           None \<Rightarrow> None
         | Some (Inl e) \<Rightarrow> Some (None, Some e)
         | Some (Inr obj') \<Rightarrow> makeObjectLoop ext schema props rest obj')
      else
        (case parsePrimitive ext (getOrEmpty props propName) (Some propSchema) of
           None \<Rightarrow> None
         | Some (value, Some e) \<Rightarrow> Some (None, Some (handlePropParseError ext [propName] e))
         | Some (value, None) \<Rightarrow> makeObjectLoop ext schema props rest (AList.update propName value obj)))"

definition makeObject :: "externals \<Rightarrow> (string \<times> string) list \<Rightarrow> Schema
    \<Rightarrow> ((string \<times> val) list option \<times> err option) option" where
  "makeObject ext props schema = makeObjectLoop ext schema props (Properties schema) []"

section \<open>Value decoders\<close>

text \<open>
  Each decoder method returns \<open>(value, found, error)\<close>. The request surfaces are Go maps,
  modelled as association lists read with \<open>map_of\<close>; for the path parameters \<open>None\<close>
  is the nil map, which the code tests for.
\<close>

subsection \<open>Path parameters\<close>

definition pathParam :: "(string \<times> string) list option \<Rightarrow> string \<Rightarrow> string \<times> bool" where
  "pathParam pathParams param =
     (case (case pathParams of None \<Rightarrow> None | Some al \<Rightarrow> map_of al param) of
        None \<Rightarrow> ([], False)
      | Some raw \<Rightarrow> (raw, True))"

text \<open>
  The \<^verbatim>\<open>switch\<close> at the head of each path operation: the prefix and the delimiters of
  the serialization method, or \<open>None\<close> in the \<^verbatim>\<open>default\<close> case.
\<close>

definition pathPrimitivePrefix :: "string \<Rightarrow> SerializationMethod \<Rightarrow> string option" where
  "pathPrimitivePrefix param sm =
     (if Style sm = ''simple'' then Some []
      else if Style sm = ''label'' then Some ''.''
      else if Style sm = ''matrix'' then Some ('';'' @ param @ ''='')
      else None)"

definition pathArrayDelims :: "string \<Rightarrow> SerializationMethod \<Rightarrow> (string \<times> string) option" where
  "pathArrayDelims param sm =
     (if Style sm = ''simple'' then Some ([], '','')
      else if Style sm = ''label'' \<and> \<not> Explode sm then Some (''.'', '','')
      else if Style sm = ''label'' \<and> Explode sm then Some (''.'', ''.'')
      else if Style sm = ''matrix'' \<and> \<not> Explode sm then Some ('';'' @ param @ ''='', '','')
      else if Style sm = ''matrix'' \<and> Explode sm
        then Some ('';'' @ param @ ''='', '';'' @ param @ ''='')
      else None)"

definition pathObjectDelims :: "string \<Rightarrow> SerializationMethod \<Rightarrow> (string \<times> string \<times> string) option" where
  "pathObjectDelims param sm =
     (if Style sm = ''simple'' \<and> \<not> Explode sm then Some ([], '','', '','')
      else if Style sm = ''simple'' \<and> Explode sm then Some ([], '','', ''='')
      else if Style sm = ''label'' \<and> \<not> Explode sm then Some (''.'', '','', '','')
      else if Style sm = ''label'' \<and> Explode sm then Some (''.'', ''.'', ''='')
      else if Style sm = ''matrix'' \<and> \<not> Explode sm
        then Some ('';'' @ param @ ''='', '','', '','')
      else if Style sm = ''matrix'' \<and> Explode sm then Some ('';'', '';'', ''='')
      else None)"

definition pathParamDecoder_DecodePrimitive :: "externals \<Rightarrow> (string \<times> string) list option \<Rightarrow> string
    \<Rightarrow> SerializationMethod \<Rightarrow> Schema \<Rightarrow> (val \<times> bool \<times> err option) option" where
  "pathParamDecoder_DecodePrimitive ext pathParams param sm schema =
     (case pathPrimitivePrefix param sm of
        None \<Rightarrow> Some (VNil, False, Some (invalidSerializationMethodErr ext sm))
      | Some prefix \<Rightarrow>
          if pathParams = None then Some (VNil, False, None)
          else
            (case pathParam pathParams param of (raw, ok) \<Rightarrow>
               if \<not> ok \<or> raw = [] then Some (VNil, False, None)
               else
                 (case cutPrefix ext raw prefix of
                    (src, Some e) \<Rightarrow> Some (VNil, ok, Some e)
                  | (src, None) \<Rightarrow>
                      (case parsePrimitive ext src (Some schema) of
                         None \<Rightarrow> None
                       | Some (v, e) \<Rightarrow> Some (v, ok, e)))))"

definition pathParamDecoder_DecodeArray :: "externals \<Rightarrow> (string \<times> string) list option \<Rightarrow> string
    \<Rightarrow> SerializationMethod \<Rightarrow> Schema \<Rightarrow> (val list \<times> bool \<times> err option) option" where
  "pathParamDecoder_DecodeArray ext pathParams param sm schema =
     (case pathArrayDelims param sm of
        None \<Rightarrow> Some ([], False, Some (invalidSerializationMethodErr ext sm))
      | Some (prefix, delim) \<Rightarrow>
          if pathParams = None then Some ([], False, None)
          else
            (case pathParam pathParams param of (raw, ok) \<Rightarrow>
               if \<not> ok \<or> raw = [] then Some ([], False, None)
               else
                 (case cutPrefix ext raw prefix of
                    (src, Some e) \<Rightarrow> Some ([], ok, Some e)
                  | (src, None) \<Rightarrow>
                      (case parseArray ext (Split ext src delim) schema of
                         None \<Rightarrow> None
                       | Some (v, e) \<Rightarrow> Some (v, ok, e)))))"

definition pathParamDecoder_DecodeObject :: "externals \<Rightarrow> (string \<times> string) list option \<Rightarrow> string
    \<Rightarrow> SerializationMethod \<Rightarrow> Schema \<Rightarrow> ((string \<times> val) list option \<times> bool \<times> err option) option" where
  "pathParamDecoder_DecodeObject ext pathParams param sm schema =
     (case pathObjectDelims param sm of
        None \<Rightarrow> Some (None, False, Some (invalidSerializationMethodErr ext sm))
      | Some (prefix, propsDelim, valueDelim) \<Rightarrow>
          if pathParams = None then Some (None, False, None)
          else
            (case pathParam pathParams param of (raw, ok) \<Rightarrow>
               if \<not> ok \<or> raw = [] then Some (None, False, None)
               else
                 (case cutPrefix ext raw prefix of
                    (src, Some e) \<Rightarrow> Some (None, ok, Some e)
                  | (src, None) \<Rightarrow>
                      (case propsFromString ext src propsDelim valueDelim of
                         (props, Some e) \<Rightarrow> Some (None, ok, Some e)
                       | (props, None) \<Rightarrow>
                           (case makeObject ext (case props of None \<Rightarrow> [] | Some al \<Rightarrow> al) schema of
                              None \<Rightarrow> None
                            | Some (v, e) \<Rightarrow> Some (v, ok, e))))))"

subsection \<open>Query parameters\<close>

definition urlValue :: "(string \<times> string list) list \<Rightarrow> string \<Rightarrow> string list \<times> bool" where
  "urlValue vs param = (case map_of vs param of None \<Rightarrow> ([], False) | Some xs \<Rightarrow> (xs, True))"

definition urlValuesDecoder_DecodePrimitive :: "externals \<Rightarrow> (string \<times> string list) list \<Rightarrow> string
    \<Rightarrow> SerializationMethod \<Rightarrow> Schema \<Rightarrow> (val \<times> bool \<times> err option) option" where
  "urlValuesDecoder_DecodePrimitive ext vs param sm schema =
     (if Style sm \<noteq> ''form'' then Some (VNil, False, Some (invalidSerializationMethodErr ext sm))
      else
        (case urlValue vs param of (values, ok) \<Rightarrow>
           (case values of
              [] \<Rightarrow> Some (VNil, ok, None)
            | v0 # others \<Rightarrow>
                if Type schema = None \<and> Pattern schema \<noteq> [] then Some (Str v0, ok, None)
                else
                  (case parsePrimitive ext v0 (Some schema) of
                     None \<Rightarrow> None
                   | Some (v, e) \<Rightarrow> Some (v, ok, e)))))"

definition urlValuesDecoder_DecodeArray :: "externals \<Rightarrow> (string \<times> string list) list \<Rightarrow> string
    \<Rightarrow> SerializationMethod \<Rightarrow> Schema \<Rightarrow> (val list \<times> bool \<times> err option) option" where
  "urlValuesDecoder_DecodeArray ext vs param sm schema =
     (if Style sm = ''deepObject'' then Some ([], False, Some (invalidSerializationMethodErr ext sm))
      else
        (case urlValue vs param of (values, ok) \<Rightarrow>
           (case values of
              [] \<Rightarrow> Some ([], ok, None)
            | v0 # others \<Rightarrow>
                (let values' =
                   (if \<not> Explode sm then
                      Split ext v0 (if Style sm = ''form'' then '',''
                                    else if Style sm = ''spaceDelimited'' then '' ''
                                    else if Style sm = ''pipeDelimited'' then ''|''
                                    else [])
                    else values)
                 in case urlValuesDecoder_parseArray ext values' sm schema of
                      None \<Rightarrow> None
                    | Some (v, e) \<Rightarrow> Some (v, ok, e)))))"

text \<open>
  The matches of the regular expression \<^verbatim>\<open>\[(.*?)\]\<close> in a key, as
  \<^verbatim>\<open>FindAllStringSubmatch\<close> finds them: from the left, an opening bracket followed by the
  shortest run of characters other than a newline that ends before a closing bracket; the
  search goes on after the closing bracket. The result lists the bracketed groups.
\<close>

fun untilClose :: "string \<Rightarrow> string \<Rightarrow> (string \<times> string) option" where
  "untilClose acc [] = None"
| "untilClose acc (c # cs) =
     (if c = CHR '']'' then Some (rev acc, cs)
      else if c = CHR 0x0A then None
      else untilClose (c # acc) cs)"

function bracketGroups :: "string \<Rightarrow> string list" where
  "bracketGroups [] = []"
| "bracketGroups (c # cs) =
     (if c = CHR ''['' then
        (case untilClose [] cs of
           None \<Rightarrow> bracketGroups cs
         | Some (g, rest) \<Rightarrow> g # bracketGroups rest)
      else bracketGroups cs)"
  by pat_completeness auto
termination
proof (relation "measure length")
  show "wf (measure length)" by simp
next
  fix c :: char and cs :: string
  show "(cs, c # cs) \<in> measure length" by simp
next
  fix c :: char and cs g rest :: string and x :: "string \<times> string"
  assume a: "untilClose [] cs = Some x" "(g, rest) = x"
  have "untilClose acc s = Some (g', r) \<Longrightarrow> length r < Suc (length s)" for acc s g' r
    by (induction s arbitrary: acc) (fastforce split: if_splits)+
  with a show "(rest, c # cs) \<in> measure length" by auto
next
  fix c :: char and cs :: string
  show "(cs, c # cs) \<in> measure length" by simp
qed

text \<open>
  The functions \<^verbatim>\<open>propsFn\<close> of \<^verbatim>\<open>urlValuesDecoder.DecodeObject\<close> for the styles form and
  deepObject. Reading the first value of a key that has none panics.
\<close>

fun explodedProps :: "(string \<times> string list) list \<Rightarrow> (string \<times> string) list \<Rightarrow> (string \<times> string) list option" where
  "explodedProps [] props = Some props"
| "explodedProps ((key, values) # params) props =
     (case values of
        [] \<Rightarrow> None
      | v0 # others \<Rightarrow> explodedProps params (AList.update key v0 props))"

definition formProps :: "externals \<Rightarrow> string \<Rightarrow> SerializationMethod \<Rightarrow> (string \<times> string list) list
    \<Rightarrow> ((string \<times> string) list option \<times> err option) option" where
  "formProps ext param sm params =
     (if params = [] then Some (None, None)
      else if Explode sm then
        (case explodedProps params [] of None \<Rightarrow> None | Some props \<Rightarrow> Some (Some props, None))
      else
        (case fst (urlValue params param) of
           [] \<Rightarrow> Some (None, None)
         | v0 # others \<Rightarrow> Some (propsFromString ext v0 '','' '','')))"

fun deepObjectLoop :: "(string \<times> string list) list \<Rightarrow> (string \<times> string) list \<Rightarrow> (string \<times> string) list" where
  "deepObjectLoop [] props = props"
| "deepObjectLoop ((key, values) # params) props =
     (let matches = bracketGroups key in
      if length matches = 0 then deepObjectLoop params props
      else if length matches = 1 then
        deepObjectLoop params (AList.update (matches ! 0) (Join values urlDecoderDelimiter) props)
      else
        deepObjectLoop params
          (AList.update (Join matches urlDecoderDelimiter) (Join values urlDecoderDelimiter) props))"

definition deepObjectProps :: "(string \<times> string list) list
    \<Rightarrow> ((string \<times> string) list option \<times> err option) option" where
  "deepObjectProps params =
     (let props = deepObjectLoop params [] in
      if props = [] then Some (None, None) else Some (Some props, None))"

text \<open>
  The loop of \<^verbatim>\<open>urlValuesDecoder.DecodeObject\<close> that computes \<open>found\<close>: it leaves at the
  first declared property that is a key of \<open>props\<close>; for the others it looks, when the
  schema permits an array or an object, for a key of \<open>props\<close> whose path leads to a value
  in the decoded object.
\<close>

fun foundLoop :: "externals \<Rightarrow> Schema \<Rightarrow> (string \<times> string) list \<Rightarrow> (string \<times> val) list option
    \<Rightarrow> (string \<times> Schema) list \<Rightarrow> bool \<Rightarrow> bool" where
  "foundLoop ext schema props v [] found = found"
| "foundLoop ext schema props v ((propName, propSchema) # rest) found =
     (if map_of props propName \<noteq> None then True
      else if Permits ext (Type schema) ''array'' \<or> Permits ext (Type schema) ''object'' then
        foundLoop ext schema props v rest
          (if list_ex (\<lambda>(k, x). snd (deepGet v (Split ext k urlDecoderDelimiter))) props
           then True else found)
      else foundLoop ext schema props v rest found)"

definition urlValuesDecoder_DecodeObject :: "externals \<Rightarrow> (string \<times> string list) list \<Rightarrow> string
    \<Rightarrow> SerializationMethod \<Rightarrow> Schema \<Rightarrow> ((string \<times> val) list option \<times> bool \<times> err option) option" where
  "urlValuesDecoder_DecodeObject ext vs param sm schema =
     (case (if Style sm = ''form'' then Some (formProps ext param sm vs)
            else if Style sm = ''deepObject'' then Some (deepObjectProps vs)
            else None) of
        None \<Rightarrow> Some (None, False, Some (invalidSerializationMethodErr ext sm))
      | Some None \<Rightarrow> None
      | Some (Some (props, Some e)) \<Rightarrow> Some (None, False, Some e)
      | Some (Some (None, None)) \<Rightarrow> Some (None, False, None)
      | Some (Some (Some props, None)) \<Rightarrow>
          (case makeObject ext props schema of
             None \<Rightarrow> None
           | Some (v, Some e) \<Rightarrow> Some (None, False, Some e)
           | Some (v, None) \<Rightarrow>
               Some (v, foundLoop ext schema props v (Properties schema) False, None)))"

subsection \<open>Header parameters\<close>

definition headerValue :: "externals \<Rightarrow> (string \<times> string list) list \<Rightarrow> string \<Rightarrow> string list \<times> bool" where
  "headerValue ext header param =
     (case map_of header (CanonicalHeaderKey ext param) of
        None \<Rightarrow> ([], False)
      | Some raw \<Rightarrow> (raw, True))"

definition headerParamDecoder_DecodePrimitive :: "externals \<Rightarrow> (string \<times> string list) list \<Rightarrow> string
    \<Rightarrow> SerializationMethod \<Rightarrow> Schema \<Rightarrow> (val \<times> bool \<times> err option) option" where
  "headerParamDecoder_DecodePrimitive ext header param sm schema =
     (if Style sm \<noteq> ''simple'' then Some (VNil, False, Some (invalidSerializationMethodErr ext sm))
      else
        (case headerValue ext header param of (raw, ok) \<Rightarrow>
           (case raw of
              [] \<Rightarrow> Some (VNil, ok, None)
            | r0 # others \<Rightarrow>
                (case parsePrimitive ext r0 (Some schema) of
                   None \<Rightarrow> None
                 | Some (v, e) \<Rightarrow> Some (v, ok, e)))))"

definition headerParamDecoder_DecodeArray :: "externals \<Rightarrow> (string \<times> string list) list \<Rightarrow> string
    \<Rightarrow> SerializationMethod \<Rightarrow> Schema \<Rightarrow> (val list \<times> bool \<times> err option) option" where
  "headerParamDecoder_DecodeArray ext header param sm schema =
     (if Style sm \<noteq> ''simple'' then Some ([], False, Some (invalidSerializationMethodErr ext sm))
      else
        (case headerValue ext header param of (raw, ok) \<Rightarrow>
           (case raw of
              [] \<Rightarrow> Some ([], ok, None)
            | r0 # others \<Rightarrow>
                (case parseArray ext (Split ext r0 '','') schema of
                   None \<Rightarrow> None
                 | Some (v, e) \<Rightarrow> Some (v, ok, e)))))"

definition headerParamDecoder_DecodeObject :: "externals \<Rightarrow> (string \<times> string list) list \<Rightarrow> string
    \<Rightarrow> SerializationMethod \<Rightarrow> Schema \<Rightarrow> ((string \<times> val) list option \<times> bool \<times> err option) option" where
  "headerParamDecoder_DecodeObject ext header param sm schema =
     (if Style sm \<noteq> ''simple'' then Some (None, False, Some (invalidSerializationMethodErr ext sm))
      else
        (let valueDelim = (if Explode sm then ''='' else '','') in
         case headerValue ext header param of (raw, ok) \<Rightarrow>
           (case raw of
              [] \<Rightarrow> Some (None, ok, None)
            | r0 # others \<Rightarrow>
                (case propsFromString ext r0 '','' valueDelim of
                   (props, Some e) \<Rightarrow> Some (None, ok, Some e)
                 | (props, None) \<Rightarrow>
                     (case makeObject ext (case props of None \<Rightarrow> [] | Some al \<Rightarrow> al) schema of
                        None \<Rightarrow> None
                      | Some (v, e) \<Rightarrow> Some (v, ok, e))))))"

subsection \<open>Cookie parameters\<close>

text \<open>
  The request is read through \<^verbatim>\<open>Request.Cookie\<close> only, which returns the named cookie's
  value or an error; \<^verbatim>\<open>http.ErrNoCookie\<close> says that the cookie is absent.
\<close>

definition cookieErr :: "externals \<Rightarrow> string \<Rightarrow> err \<Rightarrow> err" where
  "cookieErr ext param e = Wrapped (''decoding param '' @ Quote ext param @ '': '') e"

definition cookieParamDecoder_DecodePrimitive :: "externals \<Rightarrow> (string \<Rightarrow> err + string) \<Rightarrow> string
    \<Rightarrow> SerializationMethod \<Rightarrow> Schema \<Rightarrow> (val \<times> bool \<times> err option) option" where
  "cookieParamDecoder_DecodePrimitive ext Cookie param sm schema =
     (if Style sm \<noteq> ''form'' then Some (VNil, False, Some (invalidSerializationMethodErr ext sm))
      else
        (case Cookie param of
           Inl e \<Rightarrow>
             if e = ErrNoCookie then Some (VNil, False, None)
             else Some (VNil, True, Some (cookieErr ext param e))
         | Inr cookieValue \<Rightarrow>
             (case parsePrimitive ext cookieValue (Some schema) of
                None \<Rightarrow> None
              | Some (v, e) \<Rightarrow> Some (v, True, e))))"

definition cookieParamDecoder_DecodeArray :: "externals \<Rightarrow> (string \<Rightarrow> err + string) \<Rightarrow> string
    \<Rightarrow> SerializationMethod \<Rightarrow> Schema \<Rightarrow> (val list \<times> bool \<times> err option) option" where
  "cookieParamDecoder_DecodeArray ext Cookie param sm schema =
     (if Style sm \<noteq> ''form'' \<or> Explode sm
      then Some ([], False, Some (invalidSerializationMethodErr ext sm))
      else
        (case Cookie param of
           Inl e \<Rightarrow>
             if e = ErrNoCookie then Some ([], False, None)
             else Some ([], True, Some (cookieErr ext param e))
         | Inr cookieValue \<Rightarrow>
             (case parseArray ext (Split ext cookieValue '','') schema of
                None \<Rightarrow> None
              | Some (v, e) \<Rightarrow> Some (v, True, e))))"

definition cookieParamDecoder_DecodeObject :: "externals \<Rightarrow> (string \<Rightarrow> err + string) \<Rightarrow> string
    \<Rightarrow> SerializationMethod \<Rightarrow> Schema \<Rightarrow> ((string \<times> val) list option \<times> bool \<times> err option) option" where
  "cookieParamDecoder_DecodeObject ext Cookie param sm schema =
     (if Style sm \<noteq> ''form'' \<or> Explode sm
      then Some (None, False, Some (invalidSerializationMethodErr ext sm))
      else
        (case Cookie param of
           Inl e \<Rightarrow>
             if e = ErrNoCookie then Some (None, False, None)
             else Some (None, True, Some (cookieErr ext param e))
         | Inr cookieValue \<Rightarrow>
             (case propsFromString ext cookieValue '','' '','' of
                (props, Some e) \<Rightarrow> Some (None, True, Some e)
              | (props, None) \<Rightarrow>
                  (case makeObject ext (case props of None \<Rightarrow> [] | Some al \<Rightarrow> al) schema of
                     None \<Rightarrow> None
                   | Some (v, e) \<Rightarrow> Some (v, True, e)))))"

section \<open>Schema-directed dispatcher\<close>

datatype valueDecoder =
    pathParamDecoder "(string \<times> string) list option"
  | urlValuesDecoder "(string \<times> string list) list"
  | headerParamDecoder "(string \<times> string list) list"
  | cookieParamDecoder "string \<Rightarrow> err + string"

definition DecodePrimitive :: "externals \<Rightarrow> valueDecoder \<Rightarrow> string \<Rightarrow> SerializationMethod \<Rightarrow> Schema
    \<Rightarrow> (val \<times> bool \<times> err option) option" where
  "DecodePrimitive ext dec param sm schema =
     (case dec of
        pathParamDecoder pathParams \<Rightarrow> pathParamDecoder_DecodePrimitive ext pathParams param sm schema
      | urlValuesDecoder vs \<Rightarrow> urlValuesDecoder_DecodePrimitive ext vs param sm schema
      | headerParamDecoder header \<Rightarrow> headerParamDecoder_DecodePrimitive ext header param sm schema
      | cookieParamDecoder Cookie \<Rightarrow> cookieParamDecoder_DecodePrimitive ext Cookie param sm schema)"

definition DecodeArray :: "externals \<Rightarrow> valueDecoder \<Rightarrow> string \<Rightarrow> SerializationMethod \<Rightarrow> Schema
    \<Rightarrow> (val list \<times> bool \<times> err option) option" where
  "DecodeArray ext dec param sm schema =
     (case dec of
        pathParamDecoder pathParams \<Rightarrow> pathParamDecoder_DecodeArray ext pathParams param sm schema
      | urlValuesDecoder vs \<Rightarrow> urlValuesDecoder_DecodeArray ext vs param sm schema
      | headerParamDecoder header \<Rightarrow> headerParamDecoder_DecodeArray ext header param sm schema
      | cookieParamDecoder Cookie \<Rightarrow> cookieParamDecoder_DecodeArray ext Cookie param sm schema)"

definition DecodeObject :: "externals \<Rightarrow> valueDecoder \<Rightarrow> string \<Rightarrow> SerializationMethod \<Rightarrow> Schema
    \<Rightarrow> ((string \<times> val) list option \<times> bool \<times> err option) option" where
  "DecodeObject ext dec param sm schema =
     (case dec of
        pathParamDecoder pathParams \<Rightarrow> pathParamDecoder_DecodeObject ext pathParams param sm schema
      | urlValuesDecoder vs \<Rightarrow> urlValuesDecoder_DecodeObject ext vs param sm schema
      | headerParamDecoder header \<Rightarrow> headerParamDecoder_DecodeObject ext header param sm schema
      | cookieParamDecoder Cookie \<Rightarrow> cookieParamDecoder_DecodeObject ext Cookie param sm schema)"

text \<open>
  The loops of \<^verbatim>\<open>decodeValue\<close> over the members of \<^verbatim>\<open>allOf\<close>, \<^verbatim>\<open>anyOf\<close> and
  \<^verbatim>\<open>oneOf\<close>, on the members' results in order; the second argument holds the loop's
  variables. No result after the one at which the Go loop leaves is looked at. The
  \<^verbatim>\<open>anyOf\<close> loop gives \<open>VNil\<close> when no member produced a value.
\<close>

fun dv_allOf :: "(val \<times> bool \<times> err option) option list \<Rightarrow> val \<times> bool \<times> err option
    \<Rightarrow> (val \<times> bool \<times> err option) option" where
  "dv_allOf [] acc = Some acc"
| "dv_allOf (r # rs) (value, found, e) =
     (case r of
        None \<Rightarrow> None
      | Some (value', f, e') \<Rightarrow>
          if value' = VNil \<or> e' \<noteq> None then Some (value', found \<or> f, e')
          else dv_allOf rs (value', found \<or> f, e'))"

fun dv_anyOf :: "(val \<times> bool \<times> err option) option list \<Rightarrow> bool \<Rightarrow> (val \<times> bool) option" where
  "dv_anyOf [] found = Some (VNil, found)"
| "dv_anyOf (r # rs) found =
     (case r of
        None \<Rightarrow> None
      | Some (value, f, e) \<Rightarrow>
          if value \<noteq> VNil then Some (value, found \<or> f)
          else dv_anyOf rs (found \<or> f))"

fun dv_oneOf :: "(val \<times> bool \<times> err option) option list \<Rightarrow> val \<times> bool \<times> nat
    \<Rightarrow> (val \<times> bool \<times> nat) option" where
  "dv_oneOf [] acc = Some acc"
| "dv_oneOf (r # rs) (value, found, isMatched) =
     (case r of
        None \<Rightarrow> None
      | Some (v, f, e) \<Rightarrow>
          if v \<noteq> VNil then dv_oneOf rs (v, found \<or> f, Suc isMatched)
          else dv_oneOf rs (value, found \<or> f, isMatched))"

text \<open>
  The last part of \<^verbatim>\<open>decodeValue\<close>, for a schema without type: whether the surface has
  the parameter.
\<close>

definition probe :: "externals \<Rightarrow> valueDecoder \<Rightarrow> string \<Rightarrow> bool" where
  "probe ext dec param =
     (case dec of
        pathParamDecoder pathParams \<Rightarrow> snd (pathParam pathParams param)
      | urlValuesDecoder vs \<Rightarrow> snd (urlValue vs param)
      | headerParamDecoder header \<Rightarrow> snd (headerValue ext header param)
      | cookieParamDecoder Cookie \<Rightarrow> Cookie param \<noteq> Inl ErrNoCookie)"

definition isUrlValuesDecoder :: "valueDecoder \<Rightarrow> bool" where
  "isUrlValuesDecoder dec = (case dec of urlValuesDecoder vs \<Rightarrow> True | _ \<Rightarrow> False)"

function decodeValue :: "externals \<Rightarrow> valueDecoder \<Rightarrow> string \<Rightarrow> SerializationMethod \<Rightarrow> Schema \<Rightarrow> bool
    \<Rightarrow> (val \<times> bool \<times> err option) option" where
  "decodeValue ext dec param sm schema required =
     (if AllOf schema \<noteq> [] then
        dv_allOf (map (\<lambda>sr. decodeValue ext dec param sm sr required) (AllOf schema))
                 (VNil, False, None)
      else if AnyOf schema \<noteq> [] then
        (case dv_anyOf (map (\<lambda>sr. decodeValue ext dec param sm sr required) (AnyOf schema)) False of
           None \<Rightarrow> None
         | Some (value, found) \<Rightarrow>
             if value \<noteq> VNil then Some (value, found, None)
             else if required then
               Some (VNil, found, Some (ErrorString (''decoding anyOf for parameter ''
                                                      @ Quote ext param @ '' failed'')))
             else Some (VNil, found, None))
      else if OneOf schema \<noteq> [] then
        (case dv_oneOf (map (\<lambda>sr. decodeValue ext dec param sm sr required) (OneOf schema))
                       (VNil, False, 0) of
           None \<Rightarrow> None
         | Some (value, found, isMatched) \<Rightarrow>
             if isMatched \<ge> 1 then Some (value, found, None)
             else if required then
               Some (VNil, found, Some (ErrorString (''decoding oneOf failed: ''
                                                      @ Quote ext param @ '' is required'')))
             else Some (VNil, found, None))
      else if Not_s schema \<noteq> None then Some (VNil, False, Some notImplemented)
      else if Type schema \<noteq> None then
        (if Is (Type schema) ''array'' then
           (case DecodeArray ext dec param sm schema of
              None \<Rightarrow> None
            | Some (v, f, e) \<Rightarrow> Some (Arr v, f, e))
         else if Is (Type schema) ''object'' then
           (case DecodeObject ext dec param sm schema of
              None \<Rightarrow> None
            | Some (v, f, e) \<Rightarrow> Some (Obj v, f, e))
         else DecodePrimitive ext dec param sm schema)
      else if isUrlValuesDecoder dec \<and> Pattern schema \<noteq> [] then
        DecodePrimitive ext dec param sm schema
      else Some (VNil, probe ext dec param, None))"
  by pat_completeness auto
termination
proof (relation "measure (\<lambda>(ext, dec, param, sm, schema, required). size schema)")
  show "wf (measure (\<lambda>(ext, dec, param, sm, schema, required). size schema))" by simp
next
  fix ext :: externals and dec :: valueDecoder and param :: string
    and sm :: SerializationMethod and schema sr :: Schema and required :: bool
  assume "sr \<in> set (AllOf schema)"
  then have "size sr < size schema"
    by (cases schema) (auto dest: size_list_estimation' [where f = size, OF _ order_refl])
  then show "((ext, dec, param, sm, sr, required), (ext, dec, param, sm, schema, required))
      \<in> measure (\<lambda>(ext, dec, param, sm, schema, required). size schema)" by simp
next
  fix ext :: externals and dec :: valueDecoder and param :: string
    and sm :: SerializationMethod and schema sr :: Schema and required :: bool
  assume "sr \<in> set (AnyOf schema)"
  then have "size sr < size schema"
    by (cases schema) (auto dest: size_list_estimation' [where f = size, OF _ order_refl])
  then show "((ext, dec, param, sm, sr, required), (ext, dec, param, sm, schema, required))
      \<in> measure (\<lambda>(ext, dec, param, sm, schema, required). size schema)" by simp
next
  fix ext :: externals and dec :: valueDecoder and param :: string
    and sm :: SerializationMethod and schema sr :: Schema and required :: bool
  assume "sr \<in> set (OneOf schema)"
  then have "size sr < size schema"
    by (cases schema) (auto dest: size_list_estimation' [where f = size, OF _ order_refl])
  then show "((ext, dec, param, sm, sr, required), (ext, dec, param, sm, schema, required))
      \<in> measure (\<lambda>(ext, dec, param, sm, schema, required). size schema)" by simp
qed

declare decodeValue.simps [simp del]

section \<open>Styled parameters\<close>

text \<open>
  The request surface that \<^verbatim>\<open>decodeStyledParameter\<close> reads from its input: the path
  parameters, the query values as \<^verbatim>\<open>GetQueryParams\<close> returns them, the request's
  header and its \<^verbatim>\<open>Cookie\<close> method.
\<close>

record RequestValidationInput =
  PathParams :: "(string \<times> string) list option"
  QueryParams :: "(string \<times> string list) list"
  Header :: "(string \<times> string list) list"
  Cookie :: "string \<Rightarrow> err + string"

definition unsupportedIn :: "string \<Rightarrow> err" where
  "unsupportedIn loc =
     ErrorString (''unsupported parameter'' @ [CHR 0x27] @ ''s '' @ [CHR 0x27] @ ''in''
                  @ [CHR 0x27] @ '': '' @ loc)"

definition decodeWith :: "externals \<Rightarrow> valueDecoder \<Rightarrow> SerializationMethod \<Rightarrow> Parameter
    \<Rightarrow> (val \<times> bool \<times> err option) option" where
  "decodeWith ext dec sm param =
     (case Schema_p param of
        None \<Rightarrow> None
      | Some schema \<Rightarrow> decodeValue ext dec (Name param) sm schema (Required param))"

definition decodeStyledParameter :: "externals \<Rightarrow> Parameter \<Rightarrow> RequestValidationInput
    \<Rightarrow> (val \<times> bool \<times> err option) option" where
  "decodeStyledParameter ext param input =
     (case Parameter_SerializationMethod ext param of
        Inl e \<Rightarrow> Some (VNil, False, Some e)
      | Inr sm \<Rightarrow>
          if In param = ''path'' then
            (if (case PathParams input of None \<Rightarrow> True | Some al \<Rightarrow> al = [])
             then Some (VNil, False, None)
             else decodeWith ext (pathParamDecoder (PathParams input)) sm param)
          else if In param = ''query'' then
            (if QueryParams input = [] then Some (VNil, False, None)
             else decodeWith ext (urlValuesDecoder (QueryParams input)) sm param)
          else if In param = ''header'' then
            decodeWith ext (headerParamDecoder (Header input)) sm param
          else if In param = ''cookie'' then
            decodeWith ext (cookieParamDecoder (Cookie input)) sm param
          else Some (VNil, False, Some (unsupportedIn (In param))))"

section \<open>Body decoder registry\<close>

text \<open>
  The process-wide map \<^verbatim>\<open>bodyDecoders\<close> is passed and returned explicitly. A body decoder
  is a function of the body, the header, the schema and the encoding function; of the body
  \<^verbatim>\<open>decodeBody\<close> itself reads only whether it is a \<^verbatim>\<open>*multipart.Part\<close>. Registering
  or unregistering with an empty content type, or registering the nil decoder, panics.
\<close>

typedecl Encoding

record Body =
  IsMultipartPart :: bool
  Bytes :: string

type_synonym BodyDecoder =
  "Body \<Rightarrow> (string \<times> string list) list \<Rightarrow> Schema option \<Rightarrow> (string \<Rightarrow> Encoding option) option
     \<Rightarrow> (val \<times> err option) option"

definition RegisteredBodyDecoder :: "string \<Rightarrow> (string \<rightharpoonup> BodyDecoder) \<Rightarrow> BodyDecoder option" where
  "RegisteredBodyDecoder contentType bodyDecoders = bodyDecoders contentType"

definition RegisterBodyDecoder :: "string \<Rightarrow> BodyDecoder option \<Rightarrow> (string \<rightharpoonup> BodyDecoder)
    \<Rightarrow> (string \<rightharpoonup> BodyDecoder) option" where
  "RegisterBodyDecoder contentType decoder bodyDecoders =
     (if contentType = [] then None
      else case decoder of
        None \<Rightarrow> None
      | Some d \<Rightarrow> Some (bodyDecoders(contentType \<mapsto> d)))"

definition UnregisterBodyDecoder :: "string \<Rightarrow> (string \<rightharpoonup> BodyDecoder) \<Rightarrow> (string \<rightharpoonup> BodyDecoder) option" where
  "UnregisterBodyDecoder contentType bodyDecoders =
     (if contentType = [] then None
      else Some (bodyDecoders(contentType := None)))"

definition headerCT :: "externals \<Rightarrow> string" where
  "headerCT ext = CanonicalHeaderKey ext ''Content-Type''"

definition prefixUnsupportedCT :: string where
  "prefixUnsupportedCT = ''unsupported content type''"

text \<open>\<^verbatim>\<open>http.Header.Get\<close>: the first value of the canonical key, or the empty string.\<close>

definition Header_Get :: "externals \<Rightarrow> (string \<times> string list) list \<Rightarrow> string \<Rightarrow> string" where
  "Header_Get ext header k =
     (case map_of header (CanonicalHeaderKey ext k) of
        None \<Rightarrow> []
      | Some [] \<Rightarrow> []
      | Some (v # others) \<Rightarrow> v)"

definition unsupportedCT :: "externals \<Rightarrow> string \<Rightarrow> err" where
  "unsupportedCT ext mediaType =
     ParseError KindUnsupportedFormat None (prefixUnsupportedCT @ '' '' @ Quote ext mediaType) None []"

text \<open>
  The content type that \<^verbatim>\<open>decodeBody\<close> works with: the header's, or
  \<^verbatim>\<open>text/plain\<close> for a multipart part without one.
\<close>

definition contentTypeOf :: "externals \<Rightarrow> Body \<Rightarrow> (string \<times> string list) list \<Rightarrow> string" where
  "contentTypeOf ext body header =
     (let contentType = Header_Get ext header (headerCT ext) in
      if contentType = [] \<and> IsMultipartPart body then ''text/plain'' else contentType)"

definition decodeBody :: "externals \<Rightarrow> (string \<rightharpoonup> BodyDecoder) \<Rightarrow> Body \<Rightarrow> (string \<times> string list) list
    \<Rightarrow> Schema option \<Rightarrow> (string \<Rightarrow> Encoding option) option \<Rightarrow> (string \<times> val \<times> err option) option" where
  "decodeBody ext bodyDecoders body header schema encFn =
     (let mediaType = parseMediaType ext (contentTypeOf ext body header)
      in case bodyDecoders mediaType of
           None \<Rightarrow> Some ([], VNil, Some (unsupportedCT ext mediaType))
         | Some decoder \<Rightarrow>
             (case decoder body header schema encFn of
                None \<Rightarrow> None
              | Some (value, Some e) \<Rightarrow> Some ([], VNil, Some e)
              | Some (value, None) \<Rightarrow> Some (mediaType, value, None)))"

section \<open>An instance for evaluation\<close>

text \<open>
  The theorems below hold for every \<open>ext\<close>. To evaluate the decoders on concrete inputs
  an instance is needed; the evaluations in this theory use plain ASCII strings, canonical
  header names and schemas of type string, boolean, array and object, on which this
  instance agrees with Go: \<^verbatim>\<open>strconv.ParseBool\<close> is as in Go, \<open>Quote\<close> puts double
  quotes around a string without quotes, backslashes or control characters, \<open>explode\<close>
  gives one string per character, the header key is returned as it is, and the numeric
  parsers, which no evaluation reaches, accept nothing. The three functions of the
  repository are as the spec describes them.
\<close>

text \<open>
  Modelled from the spec: \<^verbatim>\<open>Types.Permits\<close>, whose source is not among the files. It
  holds when the type set contains the type.
\<close>

definition Permits_spec :: "string list option \<Rightarrow> string \<Rightarrow> bool" where
  "Permits_spec t typ = (case t of None \<Rightarrow> False | Some ts \<Rightarrow> typ \<in> set ts)"

text \<open>
  Modelled from the spec: \<^verbatim>\<open>Parameter.SerializationMethod\<close>, whose source is not among
  the files. The serialization method is the style and the explode flag that the parameter
  declares.
\<close>

definition SerializationMethod_spec :: "Parameter \<Rightarrow> err + SerializationMethod" where
  "SerializationMethod_spec p = Inr \<lparr>Style = Style_p p, Explode = Explode_p p\<rparr>"

text \<open>
  Modelled from the spec: \<^verbatim>\<open>parseMediaType\<close>, whose source is not among the files. The
  media type is the content type with its parameters stripped, that is, up to the first
  semicolon.
\<close>

definition parseMediaType_spec :: "string \<Rightarrow> string" where
  "parseMediaType_spec contentType = takeWhile (\<lambda>c. c \<noteq> CHR '';'') contentType"

definition sample_ParseBool :: "string \<Rightarrow> strconvErr + bool" where
  "sample_ParseBool str =
     (if str \<in> set [''1'', ''t'', ''T'', ''TRUE'', ''true'', ''True''] then Inr True
      else if str \<in> set [''0'', ''f'', ''F'', ''FALSE'', ''false'', ''False''] then Inr False
      else Inl ErrSyntax)"

definition sample_ext :: externals where
  "sample_ext = \<lparr>
     ParseInt = (\<lambda>s base bitSize. Inl ErrSyntax),
     ParseFloat = (\<lambda>s bitSize. Inl ErrSyntax),
     ParseBool = sample_ParseBool,
     Atoi = (\<lambda>s. Inl ErrSyntax),
     Quote = (\<lambda>s. [CHR 0x22] @ s @ [CHR 0x22]),
     explode = map (\<lambda>c. [c]),
     CanonicalHeaderKey = (\<lambda>s. s),
     Permits = Permits_spec,
     Parameter_SerializationMethod = SerializationMethod_spec,
     parseMediaType = parseMediaType_spec,
     Sprint_Types = (\<lambda>t. [])
   \<rparr>"

text \<open>Schemas used in the evaluations: a schema with one type and nothing else, an array
  schema with its items, an object schema with its properties.\<close>

definition typed :: "string \<Rightarrow> Schema" where
  "typed t = Schema (Some [t]) [] [] [] [] None [] [] None None None"

definition arrayOf :: "Schema \<Rightarrow> Schema" where
  "arrayOf items = Schema (Some [''array'']) [] [] [] [] None [] [] (Some items) None None"

definition objectWith :: "(string \<times> Schema) list \<Rightarrow> Schema" where
  "objectWith props = Schema (Some [''object'']) [] [] [] [] None [] props None None None"

definition allOfSchema :: "Schema list \<Rightarrow> Schema" where
  "allOfSchema members = Schema None [] members [] [] None [] [] None None None"

definition oneOfSchema :: "Schema list \<Rightarrow> Schema" where
  "oneOfSchema members = Schema None [] [] [] members None [] [] None None None"

text \<open>A body decoder that returns the nil value, and a request body and header.\<close>

definition nilBodyDecoder :: BodyDecoder where
  "nilBodyDecoder body header schema encFn = Some (VNil, None)"

definition sampleBody :: Body where
  "sampleBody = \<lparr>IsMultipartPart = False, Bytes = []\<rparr>"

definition sampleHeader :: "(string \<times> string list) list" where
  "sampleHeader = [(''Content-Type'', [''foo/bar; charset=utf-8''])]"

definition sampleCookies :: "string \<Rightarrow> err + string" where
  "sampleCookies n = (if n = ''id'' then Inr ''5'' else Inl ErrNoCookie)"

text \<open>The error and the \<open>found\<close> flag of a decoder result, when the decoder returns.\<close>

definition errorOf :: "('a \<times> bool \<times> err option) option \<Rightarrow> err option" where
  "errorOf r = (case r of None \<Rightarrow> None | Some (v, f, e) \<Rightarrow> e)"

definition foundOf :: "('a \<times> bool \<times> err option) option \<Rightarrow> bool option" where
  "foundOf r = (case r of None \<Rightarrow> None | Some (v, f, e) \<Rightarrow> Some f)"

section \<open>Properties\<close>

subsection \<open>The errors of the decoders\<close>

text \<open>
  Apart from the invalid-serialization-method error, every error that a decoder operation
  returns is a \<^verbatim>\<open>ParseError\<close> or wraps another error; none is a plain message.
\<close>

lemma isParseError_not_ErrorString: "isParseError e \<Longrightarrow> \<not> isErrorString e"
  by (cases e) (simp_all add: isParseError_def isErrorString_def)

lemma isErrorString_simps:
  "\<not> isErrorString (ParseError k v r c p)" "isErrorString (ErrorString m)"
  "\<not> isErrorString (Wrapped m e)" "\<not> isErrorString ErrNoCookie"
  "\<not> isErrorString (NumError f n x)" "\<not> isErrorString (Strconv x)"
  by (simp_all add: isErrorString_def)

lemma parsePrimitiveCase_err:
  "parsePrimitiveCase ext raw s typ = (v, Some e) \<Longrightarrow> isParseError e"
  by (auto simp: parsePrimitiveCase_def numErr_def isParseError_def split: if_splits sum.splits)

lemma parsePrimitiveLoop_err:
  "parsePrimitiveLoop ext raw s typs acc = (v, Some e) \<Longrightarrow>
   (\<And>e'. snd acc = Some e' \<Longrightarrow> isParseError e') \<Longrightarrow> isParseError e"
proof (induction typs arbitrary: acc)
  case Nil
  then show ?case by simp
next
  case (Cons ty typs)
  obtain v' e' where c: "parsePrimitiveCase ext raw s ty = (v', e')" by (cases "parsePrimitiveCase ext raw s ty")
  show ?case
  proof (cases e')
    case None
    with Cons.prems c show ?thesis by simp
  next
    case (Some x)
    with c have "isParseError x" by (simp add: parsePrimitiveCase_err)
    with Cons.prems(1) c Some Cons.IH [of "(v', Some x)"] show ?thesis by simp
  qed
qed

lemma parsePrimitive_err:
  "parsePrimitive ext raw s = Some (v, Some e) \<Longrightarrow> isParseError e"
  by (auto simp: parsePrimitive_def split: if_splits option.splits dest: parsePrimitiveLoop_err)

lemma parsePrimitive_Some: "parsePrimitive ext raw (Some s) \<noteq> None"
  by (simp add: parsePrimitive_def)

lemma itemError_not_ErrorString: "\<not> isErrorString (itemError i e)"
  by (simp add: itemError_def isErrorString_def)

lemma parseArrayLoop_err:
  "parseArrayLoop f i raw acc = Some (v, Some e) \<Longrightarrow> \<not> isErrorString e"
  by (induction raw arbitrary: i acc)
     (auto simp: itemError_not_ErrorString split: option.splits if_splits)

lemma parseArray_err: "parseArray ext raw s = Some (v, Some e) \<Longrightarrow> \<not> isErrorString e"
  by (auto simp: parseArray_def dest: parseArrayLoop_err)

lemma urlValuesDecoder_parseArray_err:
  "urlValuesDecoder_parseArray ext raw sm s = Some (v, Some e) \<Longrightarrow> \<not> isErrorString e"
  by (auto simp: urlValuesDecoder_parseArray_def dest: parseArrayLoop_err split: option.splits if_splits)

lemma cutPrefix_err: "cutPrefix ext raw p = (src, Some e) \<Longrightarrow> \<not> isErrorString e"
  by (auto simp: cutPrefix_def isErrorString_def split: if_splits)

lemma propsSplit_err:
  "propsSplit ext src pd vd pairs props = (r, Some e) \<Longrightarrow> \<not> isErrorString e"
  by (induction pairs arbitrary: props)
     (auto simp: Let_def propsFormatErr_def isErrorString_def split: if_splits)

lemma propsFromString_err:
  "propsFromString ext src pd vd = (r, Some e) \<Longrightarrow> \<not> isErrorString e"
  by (auto simp: propsFromString_def Let_def propsFormatErr_def isErrorString_def
           split: if_splits dest: propsSplit_err)

lemma handlePropParseError_not_ErrorString: "\<not> isErrorString (handlePropParseError ext keys e)"
  by (simp add: handlePropParseError_def isErrorString_def)

lemma objectProperty_err:
  "objectProperty ext schema props propName rest obj = Some (Inl e) \<Longrightarrow> \<not> isErrorString e"
proof (induction rest arbitrary: obj)
  case Nil
  then show ?case by simp
next
  case (Cons a rest)
  obtain pr x where a: "a = (pr, x)" by (cases a)
  from Cons.prems show ?case unfolding a
    by (auto simp: Let_def handlePropParseError_not_ErrorString isErrorString_simps
             split: if_splits sum.splits option.splits dest: Cons.IH)
qed

lemma makeObjectLoop_err:
  "makeObjectLoop ext schema props ps obj = Some (v, Some e) \<Longrightarrow> \<not> isErrorString e"
proof (induction ps arbitrary: obj)
  case Nil
  then show ?case by simp
next
  case (Cons a ps)
  obtain propName propSchema where a: "a = (propName, propSchema)" by (cases a)
  from Cons.prems show ?case unfolding a
    by (auto simp: handlePropParseError_not_ErrorString
             split: if_splits sum.splits option.splits dest: Cons.IH objectProperty_err)
qed

lemma makeObject_err: "makeObject ext props s = Some (v, Some e) \<Longrightarrow> \<not> isErrorString e"
  by (auto simp: makeObject_def dest: makeObjectLoop_err)

lemma invalidSerializationMethodErr_ErrorString: "isErrorString (invalidSerializationMethodErr ext sm)"
  by (simp add: invalidSerializationMethodErr_def isErrorString_def)

lemma pathPrimitivePrefix_None:
  "(pathPrimitivePrefix param sm = None) = (Style sm \<notin> {''simple'', ''label'', ''matrix''})"
  by (simp add: pathPrimitivePrefix_def)

lemma pathArrayDelims_None:
  "(pathArrayDelims param sm = None) = (Style sm \<notin> {''simple'', ''label'', ''matrix''})"
  by (simp add: pathArrayDelims_def)

lemma pathObjectDelims_None:
  "(pathObjectDelims param sm = None) = (Style sm \<notin> {''simple'', ''label'', ''matrix''})"
  by (simp add: pathObjectDelims_def)

lemma path_DecodePrimitive_err:
  "pathParamDecoder_DecodePrimitive ext pp param sm schema = Some (v, f, Some e) \<Longrightarrow>
   pathPrimitivePrefix param sm \<noteq> None \<Longrightarrow> \<not> isErrorString e"
  unfolding pathParamDecoder_DecodePrimitive_def
  by (auto split: if_splits option.splits prod.splits dest: cutPrefix_err parsePrimitive_err isParseError_not_ErrorString)

lemma path_DecodeArray_err:
  "pathParamDecoder_DecodeArray ext pp param sm schema = Some (v, f, Some e) \<Longrightarrow>
   pathArrayDelims param sm \<noteq> None \<Longrightarrow> \<not> isErrorString e"
  unfolding pathParamDecoder_DecodeArray_def
  by (auto split: if_splits option.splits prod.splits dest: cutPrefix_err parseArray_err)

lemma path_DecodeObject_err:
  "pathParamDecoder_DecodeObject ext pp param sm schema = Some (v, f, Some e) \<Longrightarrow>
   pathObjectDelims param sm \<noteq> None \<Longrightarrow> \<not> isErrorString e"
  unfolding pathParamDecoder_DecodeObject_def
  by (auto split: if_splits option.splits prod.splits dest: cutPrefix_err propsFromString_err makeObject_err)

lemma query_DecodePrimitive_err:
  "urlValuesDecoder_DecodePrimitive ext vs param sm schema = Some (v, f, Some e) \<Longrightarrow>
   Style sm = ''form'' \<Longrightarrow> \<not> isErrorString e"
  unfolding urlValuesDecoder_DecodePrimitive_def
  by (auto split: if_splits option.splits prod.splits list.splits dest: parsePrimitive_err isParseError_not_ErrorString)

lemma query_DecodeArray_err:
  "urlValuesDecoder_DecodeArray ext vs param sm schema = Some (v, f, Some e) \<Longrightarrow>
   Style sm \<noteq> ''deepObject'' \<Longrightarrow> \<not> isErrorString e"
  unfolding urlValuesDecoder_DecodeArray_def Let_def
  by (auto split: if_splits option.splits prod.splits list.splits dest: urlValuesDecoder_parseArray_err)

lemma formProps_err:
  "formProps ext param sm vs = Some (p, Some e) \<Longrightarrow> \<not> isErrorString e"
  unfolding formProps_def
  by (auto split: if_splits option.splits list.splits dest: propsFromString_err)

lemma deepObjectProps_err:
  "deepObjectProps vs = Some (p, Some e) \<Longrightarrow> False"
  unfolding deepObjectProps_def Let_def
  by (auto split: if_splits)

lemma query_DecodeObject_err:
  "urlValuesDecoder_DecodeObject ext vs param sm schema = Some (v, f, Some e) \<Longrightarrow>
   Style sm \<in> {''form'', ''deepObject''} \<Longrightarrow> \<not> isErrorString e"
  unfolding urlValuesDecoder_DecodeObject_def
  by (auto split: if_splits option.splits prod.splits dest: formProps_err deepObjectProps_err makeObject_err)

lemma header_DecodePrimitive_err:
  "headerParamDecoder_DecodePrimitive ext h param sm schema = Some (v, f, Some e) \<Longrightarrow>
   Style sm = ''simple'' \<Longrightarrow> \<not> isErrorString e"
  unfolding headerParamDecoder_DecodePrimitive_def
  by (auto split: if_splits option.splits prod.splits list.splits dest: parsePrimitive_err isParseError_not_ErrorString)

lemma header_DecodeArray_err:
  "headerParamDecoder_DecodeArray ext h param sm schema = Some (v, f, Some e) \<Longrightarrow>
   Style sm = ''simple'' \<Longrightarrow> \<not> isErrorString e"
  unfolding headerParamDecoder_DecodeArray_def
  by (auto split: if_splits option.splits prod.splits list.splits dest: parseArray_err)

lemma header_DecodeObject_err:
  "headerParamDecoder_DecodeObject ext h param sm schema = Some (v, f, Some e) \<Longrightarrow>
   Style sm = ''simple'' \<Longrightarrow> \<not> isErrorString e"
  unfolding headerParamDecoder_DecodeObject_def Let_def
  by (auto split: if_splits option.splits prod.splits list.splits dest: propsFromString_err makeObject_err)

lemma cookie_DecodePrimitive_err:
  "cookieParamDecoder_DecodePrimitive ext c param sm schema = Some (v, f, Some e) \<Longrightarrow>
   Style sm = ''form'' \<Longrightarrow> \<not> isErrorString e"
  unfolding cookieParamDecoder_DecodePrimitive_def cookieErr_def
  by (auto simp: isErrorString_simps split: if_splits option.splits prod.splits sum.splits dest: parsePrimitive_err isParseError_not_ErrorString)

lemma cookie_DecodeArray_err:
  "cookieParamDecoder_DecodeArray ext c param sm schema = Some (v, f, Some e) \<Longrightarrow>
   Style sm = ''form'' \<and> \<not> Explode sm \<Longrightarrow> \<not> isErrorString e"
  unfolding cookieParamDecoder_DecodeArray_def cookieErr_def
  by (auto simp: isErrorString_simps split: if_splits option.splits prod.splits sum.splits dest: parseArray_err)

lemma cookie_DecodeObject_err:
  "cookieParamDecoder_DecodeObject ext c param sm schema = Some (v, f, Some e) \<Longrightarrow>
   Style sm = ''form'' \<and> \<not> Explode sm \<Longrightarrow> \<not> isErrorString e"
  unfolding cookieParamDecoder_DecodeObject_def cookieErr_def
  by (auto simp: isErrorString_simps split: if_splits option.splits prod.splits sum.splits dest: propsFromString_err makeObject_err)

lemma errorOf_Some: "errorOf r = Some e \<Longrightarrow> \<exists>v f. r = Some (v, f, Some e)"
  by (auto simp: errorOf_def split: option.splits)

lemma pathParamDecoder_DecodePrimitive_invalid:
  "(if Style sm \<notin> {''simple'', ''label'', ''matrix''}
    then pathParamDecoder_DecodePrimitive ext pathParams param sm schema
           = Some (VNil, False, Some (invalidSerializationMethodErr ext sm))
    else errorOf (pathParamDecoder_DecodePrimitive ext pathParams param sm schema)
           \<noteq> Some (invalidSerializationMethodErr ext sm))"
  using invalidSerializationMethodErr_ErrorString [of ext sm] path_DecodePrimitive_err [of ext pathParams param sm schema]
        pathPrimitivePrefix_None [of param sm]
  by (auto dest!: errorOf_Some) (simp_all add: pathParamDecoder_DecodePrimitive_def)

lemma pathParamDecoder_DecodeArray_invalid:
  "(if Style sm \<notin> {''simple'', ''label'', ''matrix''}
    then pathParamDecoder_DecodeArray ext pathParams param sm schema
           = Some ([], False, Some (invalidSerializationMethodErr ext sm))
    else errorOf (pathParamDecoder_DecodeArray ext pathParams param sm schema)
           \<noteq> Some (invalidSerializationMethodErr ext sm))"
  using invalidSerializationMethodErr_ErrorString [of ext sm] path_DecodeArray_err [of ext pathParams param sm schema]
        pathArrayDelims_None [of param sm]
  by (auto dest!: errorOf_Some) (simp_all add: pathParamDecoder_DecodeArray_def)

lemma pathParamDecoder_DecodeObject_invalid:
  "(if Style sm \<notin> {''simple'', ''label'', ''matrix''}
    then pathParamDecoder_DecodeObject ext pathParams param sm schema
           = Some (None, False, Some (invalidSerializationMethodErr ext sm))
    else errorOf (pathParamDecoder_DecodeObject ext pathParams param sm schema)
           \<noteq> Some (invalidSerializationMethodErr ext sm))"
  using invalidSerializationMethodErr_ErrorString [of ext sm] path_DecodeObject_err [of ext pathParams param sm schema]
        pathObjectDelims_None [of param sm]
  by (auto dest!: errorOf_Some) (simp_all add: pathParamDecoder_DecodeObject_def)

lemma urlValuesDecoder_DecodePrimitive_invalid:
  "(if Style sm \<noteq> ''form''
    then urlValuesDecoder_DecodePrimitive ext vs param sm schema
           = Some (VNil, False, Some (invalidSerializationMethodErr ext sm))
    else errorOf (urlValuesDecoder_DecodePrimitive ext vs param sm schema)
           \<noteq> Some (invalidSerializationMethodErr ext sm))"
  using invalidSerializationMethodErr_ErrorString [of ext sm] query_DecodePrimitive_err [of ext vs param sm schema]
  by (auto dest!: errorOf_Some) (simp_all add: urlValuesDecoder_DecodePrimitive_def)

lemma urlValuesDecoder_DecodeArray_invalid:
  "(if Style sm = ''deepObject''
    then urlValuesDecoder_DecodeArray ext vs param sm schema
           = Some ([], False, Some (invalidSerializationMethodErr ext sm))
    else errorOf (urlValuesDecoder_DecodeArray ext vs param sm schema)
           \<noteq> Some (invalidSerializationMethodErr ext sm))"
  using invalidSerializationMethodErr_ErrorString [of ext sm] query_DecodeArray_err [of ext vs param sm schema]
  by (auto dest!: errorOf_Some) (simp_all add: urlValuesDecoder_DecodeArray_def)

lemma urlValuesDecoder_DecodeObject_invalid:
  "(if Style sm \<notin> {''form'', ''deepObject''}
    then urlValuesDecoder_DecodeObject ext vs param sm schema
           = Some (None, False, Some (invalidSerializationMethodErr ext sm))
    else errorOf (urlValuesDecoder_DecodeObject ext vs param sm schema)
           \<noteq> Some (invalidSerializationMethodErr ext sm))"
  using invalidSerializationMethodErr_ErrorString [of ext sm] query_DecodeObject_err [of ext vs param sm schema]
  by (auto dest!: errorOf_Some) (simp_all add: urlValuesDecoder_DecodeObject_def)

lemma headerParamDecoder_DecodePrimitive_invalid:
  "(if Style sm \<noteq> ''simple''
    then headerParamDecoder_DecodePrimitive ext header param sm schema
           = Some (VNil, False, Some (invalidSerializationMethodErr ext sm))
    else errorOf (headerParamDecoder_DecodePrimitive ext header param sm schema)
           \<noteq> Some (invalidSerializationMethodErr ext sm))"
  using invalidSerializationMethodErr_ErrorString [of ext sm] header_DecodePrimitive_err [of ext header param sm schema]
  by (auto dest!: errorOf_Some) (simp_all add: headerParamDecoder_DecodePrimitive_def)

lemma headerParamDecoder_DecodeArray_invalid:
  "(if Style sm \<noteq> ''simple''
    then headerParamDecoder_DecodeArray ext header param sm schema
           = Some ([], False, Some (invalidSerializationMethodErr ext sm))
    else errorOf (headerParamDecoder_DecodeArray ext header param sm schema)
           \<noteq> Some (invalidSerializationMethodErr ext sm))"
  using invalidSerializationMethodErr_ErrorString [of ext sm] header_DecodeArray_err [of ext header param sm schema]
  by (auto dest!: errorOf_Some) (simp_all add: headerParamDecoder_DecodeArray_def)

lemma headerParamDecoder_DecodeObject_invalid:
  "(if Style sm \<noteq> ''simple''
    then headerParamDecoder_DecodeObject ext header param sm schema
           = Some (None, False, Some (invalidSerializationMethodErr ext sm))
    else errorOf (headerParamDecoder_DecodeObject ext header param sm schema)
           \<noteq> Some (invalidSerializationMethodErr ext sm))"
  using invalidSerializationMethodErr_ErrorString [of ext sm] header_DecodeObject_err [of ext header param sm schema]
  by (auto dest!: errorOf_Some) (simp_all add: headerParamDecoder_DecodeObject_def)

lemma cookieParamDecoder_DecodePrimitive_invalid:
  "(if Style sm \<noteq> ''form''
    then cookieParamDecoder_DecodePrimitive ext cookies param sm schema
           = Some (VNil, False, Some (invalidSerializationMethodErr ext sm))
    else errorOf (cookieParamDecoder_DecodePrimitive ext cookies param sm schema)
           \<noteq> Some (invalidSerializationMethodErr ext sm))"
  using invalidSerializationMethodErr_ErrorString [of ext sm] cookie_DecodePrimitive_err [of ext cookies param sm schema]
  by (auto dest!: errorOf_Some) (simp_all add: cookieParamDecoder_DecodePrimitive_def)

lemma cookieParamDecoder_DecodeArray_invalid:
  "(if Style sm \<noteq> ''form'' \<or> Explode sm
    then cookieParamDecoder_DecodeArray ext cookies param sm schema
           = Some ([], False, Some (invalidSerializationMethodErr ext sm))
    else errorOf (cookieParamDecoder_DecodeArray ext cookies param sm schema)
           \<noteq> Some (invalidSerializationMethodErr ext sm))"
  using invalidSerializationMethodErr_ErrorString [of ext sm] cookie_DecodeArray_err [of ext cookies param sm schema]
  by (auto dest!: errorOf_Some) (simp_all add: cookieParamDecoder_DecodeArray_def)

lemma cookieParamDecoder_DecodeObject_invalid:
  "(if Style sm \<noteq> ''form'' \<or> Explode sm
    then cookieParamDecoder_DecodeObject ext cookies param sm schema
           = Some (None, False, Some (invalidSerializationMethodErr ext sm))
    else errorOf (cookieParamDecoder_DecodeObject ext cookies param sm schema)
           \<noteq> Some (invalidSerializationMethodErr ext sm))"
  using invalidSerializationMethodErr_ErrorString [of ext sm] cookie_DecodeObject_err [of ext cookies param sm schema]
  by (auto dest!: errorOf_Some) (simp_all add: cookieParamDecoder_DecodeObject_def)

subsection \<open>Serialization methods\<close>

text \<open>
  C1, as the code has it. Each decoder operation returns the invalid-serialization-method
  error, with no value and \<open>found = false\<close>, exactly when its own check of the
  serialization method fails, whether or not the surface contains the parameter: the path
  operations for a style other than simple, label and matrix; the query operations for a
  style other than form (primitive), for the style deepObject (array), for a style other
  than form and deepObject (object); the header operations for a style other than simple;
  the cookie operations for a style other than form (primitive), for a style other than form
  or with explode set (array and object). For every other serialization method the
  operation does not return that error.
\<close>

theorem invalid_serialization_method_iff_rejected_by_decoder:
  "(if Style sm \<notin> {''simple'', ''label'', ''matrix''}
       then pathParamDecoder_DecodePrimitive ext pathParams param sm schema
              = Some (VNil, False, Some (invalidSerializationMethodErr ext sm))
       else errorOf (pathParamDecoder_DecodePrimitive ext pathParams param sm schema)
              \<noteq> Some (invalidSerializationMethodErr ext sm))
   \<and> (if Style sm \<notin> {''simple'', ''label'', ''matrix''}
       then pathParamDecoder_DecodeArray ext pathParams param sm schema
              = Some ([], False, Some (invalidSerializationMethodErr ext sm))
       else errorOf (pathParamDecoder_DecodeArray ext pathParams param sm schema)
              \<noteq> Some (invalidSerializationMethodErr ext sm))
   \<and> (if Style sm \<notin> {''simple'', ''label'', ''matrix''}
       then pathParamDecoder_DecodeObject ext pathParams param sm schema
              = Some (None, False, Some (invalidSerializationMethodErr ext sm))
       else errorOf (pathParamDecoder_DecodeObject ext pathParams param sm schema)
              \<noteq> Some (invalidSerializationMethodErr ext sm))
   \<and> (if Style sm \<noteq> ''form''
       then urlValuesDecoder_DecodePrimitive ext vs param sm schema
              = Some (VNil, False, Some (invalidSerializationMethodErr ext sm))
       else errorOf (urlValuesDecoder_DecodePrimitive ext vs param sm schema)
              \<noteq> Some (invalidSerializationMethodErr ext sm))
   \<and> (if Style sm = ''deepObject''
       then urlValuesDecoder_DecodeArray ext vs param sm schema
              = Some ([], False, Some (invalidSerializationMethodErr ext sm))
       else errorOf (urlValuesDecoder_DecodeArray ext vs param sm schema)
              \<noteq> Some (invalidSerializationMethodErr ext sm))
   \<and> (if Style sm \<notin> {''form'', ''deepObject''}
       then urlValuesDecoder_DecodeObject ext vs param sm schema
              = Some (None, False, Some (invalidSerializationMethodErr ext sm))
       else errorOf (urlValuesDecoder_DecodeObject ext vs param sm schema)
              \<noteq> Some (invalidSerializationMethodErr ext sm))
   \<and> (if Style sm \<noteq> ''simple''
       then headerParamDecoder_DecodePrimitive ext header param sm schema
              = Some (VNil, False, Some (invalidSerializationMethodErr ext sm))
       else errorOf (headerParamDecoder_DecodePrimitive ext header param sm schema)
              \<noteq> Some (invalidSerializationMethodErr ext sm))
   \<and> (if Style sm \<noteq> ''simple''
       then headerParamDecoder_DecodeArray ext header param sm schema
              = Some ([], False, Some (invalidSerializationMethodErr ext sm))
       else errorOf (headerParamDecoder_DecodeArray ext header param sm schema)
              \<noteq> Some (invalidSerializationMethodErr ext sm))
   \<and> (if Style sm \<noteq> ''simple''
       then headerParamDecoder_DecodeObject ext header param sm schema
              = Some (None, False, Some (invalidSerializationMethodErr ext sm))
       else errorOf (headerParamDecoder_DecodeObject ext header param sm schema)
              \<noteq> Some (invalidSerializationMethodErr ext sm))
   \<and> (if Style sm \<noteq> ''form''
       then cookieParamDecoder_DecodePrimitive ext cookies param sm schema
              = Some (VNil, False, Some (invalidSerializationMethodErr ext sm))
       else errorOf (cookieParamDecoder_DecodePrimitive ext cookies param sm schema)
              \<noteq> Some (invalidSerializationMethodErr ext sm))
   \<and> (if Style sm \<noteq> ''form'' \<or> Explode sm
       then cookieParamDecoder_DecodeArray ext cookies param sm schema
              = Some ([], False, Some (invalidSerializationMethodErr ext sm))
       else errorOf (cookieParamDecoder_DecodeArray ext cookies param sm schema)
              \<noteq> Some (invalidSerializationMethodErr ext sm))
   \<and> (if Style sm \<noteq> ''form'' \<or> Explode sm
       then cookieParamDecoder_DecodeObject ext cookies param sm schema
              = Some (None, False, Some (invalidSerializationMethodErr ext sm))
       else errorOf (cookieParamDecoder_DecodeObject ext cookies param sm schema)
              \<noteq> Some (invalidSerializationMethodErr ext sm))"
  by (intro conjI pathParamDecoder_DecodePrimitive_invalid
      pathParamDecoder_DecodeArray_invalid
      pathParamDecoder_DecodeObject_invalid
      urlValuesDecoder_DecodePrimitive_invalid
      urlValuesDecoder_DecodeArray_invalid
      urlValuesDecoder_DecodeObject_invalid
      headerParamDecoder_DecodePrimitive_invalid
      headerParamDecoder_DecodeArray_invalid
      headerParamDecoder_DecodeObject_invalid
      cookieParamDecoder_DecodePrimitive_invalid
      cookieParamDecoder_DecodeArray_invalid
      cookieParamDecoder_DecodeObject_invalid)

text \<open>
  The theorem at the cookie decoder with style form and explode set, which the array
  operation rejects and the primitive operation does not, and at the query array operation
  with style deepObject.
\<close>

theorem invalid_serialization_method_witness:
  "cookieParamDecoder_DecodeArray sample_ext sampleCookies ''id''
       \<lparr>Style = ''form'', Explode = True\<rparr> (arrayOf (typed ''string''))
     = Some ([], False, Some (invalidSerializationMethodErr sample_ext \<lparr>Style = ''form'', Explode = True\<rparr>))
   \<and> errorOf (cookieParamDecoder_DecodePrimitive sample_ext sampleCookies ''id''
       \<lparr>Style = ''form'', Explode = True\<rparr> (typed ''string''))
     \<noteq> Some (invalidSerializationMethodErr sample_ext \<lparr>Style = ''form'', Explode = True\<rparr>)
   \<and> urlValuesDecoder_DecodeArray sample_ext [(''ids'', [''a'', ''b''])] ''ids''
       \<lparr>Style = ''deepObject'', Explode = True\<rparr> (arrayOf (typed ''string''))
     = Some ([], False, Some (invalidSerializationMethodErr sample_ext \<lparr>Style = ''deepObject'', Explode = True\<rparr>))"
  using invalid_serialization_method_iff_rejected_by_decoder
          [where sm = "\<lparr>Style = ''form'', Explode = True\<rparr>" and ext = sample_ext
             and param = "''id''" and schema = "arrayOf (typed ''string'')" and cookies = sampleCookies]
        invalid_serialization_method_iff_rejected_by_decoder
          [where sm = "\<lparr>Style = ''form'', Explode = True\<rparr>" and ext = sample_ext
             and param = "''id''" and schema = "typed ''string''" and cookies = sampleCookies]
        invalid_serialization_method_iff_rejected_by_decoder
          [where sm = "\<lparr>Style = ''deepObject'', Explode = True\<rparr>" and ext = sample_ext
             and param = "''ids''" and schema = "arrayOf (typed ''string'')"
             and vs = "[(''ids'', [''a'', ''b''])]"]
  by simp

text \<open>
  C1 as stated fails: a cookie primitive with style form and explode set, and a query array
  with style spaceDelimited and explode set, are combinations that the table of legal
  combinations does not list, the surface contains the parameter, and both are decoded.
\<close>

theorem unlisted_methods_accepted:
  "cookieParamDecoder_DecodePrimitive sample_ext sampleCookies ''id''
       \<lparr>Style = ''form'', Explode = True\<rparr> (typed ''string'')
     = Some (Str ''5'', True, None)
   \<and> urlValuesDecoder_DecodeArray sample_ext [(''ids'', [''a'', ''b''])] ''ids''
       \<lparr>Style = ''spaceDelimited'', Explode = True\<rparr> (arrayOf (typed ''string''))
     = Some ([Str ''a'', Str ''b''], True, None)"
  by code_simp

subsection \<open>The found flag\<close>

lemma pathParamDecoder_DecodePrimitive_found:
  "foundOf (pathParamDecoder_DecodePrimitive ext pathParams param sm schema)
        = Some (Style sm \<in> {''simple'', ''label'', ''matrix''}
               \<and> (\<exists>al raw. pathParams = Some al \<and> map_of al param = Some raw \<and> raw \<noteq> []))"
  using pathPrimitivePrefix_None [of param sm]
  unfolding pathParamDecoder_DecodePrimitive_def foundOf_def pathParam_def
  by (cases "pathPrimitivePrefix param sm")
     (auto simp: parsePrimitive_def split: if_splits option.splits prod.splits)

lemma pathParamDecoder_DecodeArray_found:
  "(pathParamDecoder_DecodeArray ext pathParams param sm schema \<noteq> None \<longrightarrow>
      foundOf (pathParamDecoder_DecodeArray ext pathParams param sm schema)
        = Some (Style sm \<in> {''simple'', ''label'', ''matrix''}
               \<and> (\<exists>al raw. pathParams = Some al \<and> map_of al param = Some raw \<and> raw \<noteq> [])))"
  using pathArrayDelims_None [of param sm]
  unfolding pathParamDecoder_DecodeArray_def foundOf_def pathParam_def
  by (cases "pathArrayDelims param sm")
     (auto simp: parsePrimitive_def split: if_splits option.splits prod.splits)

lemma pathParamDecoder_DecodeObject_found:
  "(pathParamDecoder_DecodeObject ext pathParams param sm schema \<noteq> None \<longrightarrow>
      foundOf (pathParamDecoder_DecodeObject ext pathParams param sm schema)
        = Some (Style sm \<in> {''simple'', ''label'', ''matrix''}
               \<and> (\<exists>al raw. pathParams = Some al \<and> map_of al param = Some raw \<and> raw \<noteq> [])))"
  using pathObjectDelims_None [of param sm]
  unfolding pathParamDecoder_DecodeObject_def foundOf_def pathParam_def
  by (cases "pathObjectDelims param sm")
     (auto simp: parsePrimitive_def split: if_splits option.splits prod.splits)

lemma urlValuesDecoder_DecodePrimitive_found:
  "foundOf (urlValuesDecoder_DecodePrimitive ext vs param sm schema)
        = Some (Style sm = ''form'' \<and> map_of vs param \<noteq> None)"
  unfolding urlValuesDecoder_DecodePrimitive_def foundOf_def pathParam_def urlValue_def headerValue_def Let_def
  by (auto simp: parsePrimitive_def split: if_splits option.splits prod.splits list.splits sum.splits)

lemma urlValuesDecoder_DecodeArray_found:
  "(urlValuesDecoder_DecodeArray ext vs param sm schema \<noteq> None \<longrightarrow>
      foundOf (urlValuesDecoder_DecodeArray ext vs param sm schema)
        = Some (Style sm \<noteq> ''deepObject'' \<and> map_of vs param \<noteq> None))"
  unfolding urlValuesDecoder_DecodeArray_def foundOf_def pathParam_def urlValue_def headerValue_def Let_def
  by (auto simp: parsePrimitive_def split: if_splits option.splits prod.splits list.splits sum.splits)

lemma headerParamDecoder_DecodePrimitive_found:
  "foundOf (headerParamDecoder_DecodePrimitive ext header param sm schema)
        = Some (Style sm = ''simple''
               \<and> map_of header (CanonicalHeaderKey ext param) \<noteq> None)"
  unfolding headerParamDecoder_DecodePrimitive_def foundOf_def pathParam_def urlValue_def headerValue_def Let_def
  by (auto simp: parsePrimitive_def split: if_splits option.splits prod.splits list.splits sum.splits)

lemma headerParamDecoder_DecodeArray_found:
  "(headerParamDecoder_DecodeArray ext header param sm schema \<noteq> None \<longrightarrow>
      foundOf (headerParamDecoder_DecodeArray ext header param sm schema)
        = Some (Style sm = ''simple''
               \<and> map_of header (CanonicalHeaderKey ext param) \<noteq> None))"
  unfolding headerParamDecoder_DecodeArray_def foundOf_def pathParam_def urlValue_def headerValue_def Let_def
  by (auto simp: parsePrimitive_def split: if_splits option.splits prod.splits list.splits sum.splits)

lemma headerParamDecoder_DecodeObject_found:
  "(headerParamDecoder_DecodeObject ext header param sm schema \<noteq> None \<longrightarrow>
      foundOf (headerParamDecoder_DecodeObject ext header param sm schema)
        = Some (Style sm = ''simple''
               \<and> map_of header (CanonicalHeaderKey ext param) \<noteq> None))"
  unfolding headerParamDecoder_DecodeObject_def foundOf_def pathParam_def urlValue_def headerValue_def Let_def
  by (auto simp: parsePrimitive_def split: if_splits option.splits prod.splits list.splits sum.splits)

lemma cookieParamDecoder_DecodePrimitive_found:
  "foundOf (cookieParamDecoder_DecodePrimitive ext cookies param sm schema)
        = Some (Style sm = ''form'' \<and> cookies param \<noteq> Inl ErrNoCookie)"
  unfolding cookieParamDecoder_DecodePrimitive_def foundOf_def pathParam_def urlValue_def headerValue_def Let_def
  by (auto simp: parsePrimitive_def split: if_splits option.splits prod.splits list.splits sum.splits)

lemma cookieParamDecoder_DecodeArray_found:
  "(cookieParamDecoder_DecodeArray ext cookies param sm schema \<noteq> None \<longrightarrow>
      foundOf (cookieParamDecoder_DecodeArray ext cookies param sm schema)
        = Some (Style sm = ''form'' \<and> \<not> Explode sm
               \<and> cookies param \<noteq> Inl ErrNoCookie))"
  unfolding cookieParamDecoder_DecodeArray_def foundOf_def pathParam_def urlValue_def headerValue_def Let_def
  by (auto simp: parsePrimitive_def split: if_splits option.splits prod.splits list.splits sum.splits)

lemma cookieParamDecoder_DecodeObject_found:
  "(cookieParamDecoder_DecodeObject ext cookies param sm schema \<noteq> None \<longrightarrow>
      foundOf (cookieParamDecoder_DecodeObject ext cookies param sm schema)
        = Some (Style sm = ''form'' \<and> \<not> Explode sm
               \<and> cookies param \<noteq> Inl ErrNoCookie))"
  unfolding cookieParamDecoder_DecodeObject_def foundOf_def pathParam_def urlValue_def headerValue_def Let_def
  by (auto simp: parsePrimitive_def split: if_splits option.splits prod.splits list.splits sum.splits)

text \<open>
  C2, as the code has it. Whenever a decoder operation returns, its \<open>found\<close> result is
  true exactly when the operation accepts the serialization method and the surface has the
  parameter: for the header and cookie operations and the query operations for primitives
  and arrays, when the surface contains the parameter's name, also with an empty value; for
  the path operations, when the path parameters hold a non-empty raw value for the name.
  The operations for primitives always return. (The query operation for objects computes
  \<open>found\<close> from the decoded properties and is not part of this statement.)
\<close>

theorem found_iff_accepted_and_present:
  "foundOf (pathParamDecoder_DecodePrimitive ext pathParams param sm schema)
        = Some (Style sm \<in> {''simple'', ''label'', ''matrix''}
               \<and> (\<exists>al raw. pathParams = Some al \<and> map_of al param = Some raw \<and> raw \<noteq> []))
   \<and> (pathParamDecoder_DecodeArray ext pathParams param sm schema \<noteq> None \<longrightarrow>
      foundOf (pathParamDecoder_DecodeArray ext pathParams param sm schema)
        = Some (Style sm \<in> {''simple'', ''label'', ''matrix''}
               \<and> (\<exists>al raw. pathParams = Some al \<and> map_of al param = Some raw \<and> raw \<noteq> [])))
   \<and> (pathParamDecoder_DecodeObject ext pathParams param sm schema \<noteq> None \<longrightarrow>
      foundOf (pathParamDecoder_DecodeObject ext pathParams param sm schema)
        = Some (Style sm \<in> {''simple'', ''label'', ''matrix''}
               \<and> (\<exists>al raw. pathParams = Some al \<and> map_of al param = Some raw \<and> raw \<noteq> [])))
   \<and> foundOf (urlValuesDecoder_DecodePrimitive ext vs param sm schema)
        = Some (Style sm = ''form'' \<and> map_of vs param \<noteq> None)
   \<and> (urlValuesDecoder_DecodeArray ext vs param sm schema \<noteq> None \<longrightarrow>
      foundOf (urlValuesDecoder_DecodeArray ext vs param sm schema)
        = Some (Style sm \<noteq> ''deepObject'' \<and> map_of vs param \<noteq> None))
   \<and> foundOf (headerParamDecoder_DecodePrimitive ext header param sm schema)
        = Some (Style sm = ''simple''
               \<and> map_of header (CanonicalHeaderKey ext param) \<noteq> None)
   \<and> (headerParamDecoder_DecodeArray ext header param sm schema \<noteq> None \<longrightarrow>
      foundOf (headerParamDecoder_DecodeArray ext header param sm schema)
        = Some (Style sm = ''simple''
               \<and> map_of header (CanonicalHeaderKey ext param) \<noteq> None))
   \<and> (headerParamDecoder_DecodeObject ext header param sm schema \<noteq> None \<longrightarrow>
      foundOf (headerParamDecoder_DecodeObject ext header param sm schema)
        = Some (Style sm = ''simple''
               \<and> map_of header (CanonicalHeaderKey ext param) \<noteq> None))
   \<and> foundOf (cookieParamDecoder_DecodePrimitive ext cookies param sm schema)
        = Some (Style sm = ''form'' \<and> cookies param \<noteq> Inl ErrNoCookie)
   \<and> (cookieParamDecoder_DecodeArray ext cookies param sm schema \<noteq> None \<longrightarrow>
      foundOf (cookieParamDecoder_DecodeArray ext cookies param sm schema)
        = Some (Style sm = ''form'' \<and> \<not> Explode sm
               \<and> cookies param \<noteq> Inl ErrNoCookie))
   \<and> (cookieParamDecoder_DecodeObject ext cookies param sm schema \<noteq> None \<longrightarrow>
      foundOf (cookieParamDecoder_DecodeObject ext cookies param sm schema)
        = Some (Style sm = ''form'' \<and> \<not> Explode sm
               \<and> cookies param \<noteq> Inl ErrNoCookie))"
  by (intro conjI pathParamDecoder_DecodePrimitive_found
      pathParamDecoder_DecodeArray_found
      pathParamDecoder_DecodeObject_found
      urlValuesDecoder_DecodePrimitive_found
      urlValuesDecoder_DecodeArray_found
      headerParamDecoder_DecodePrimitive_found
      headerParamDecoder_DecodeArray_found
      headerParamDecoder_DecodeObject_found
      cookieParamDecoder_DecodePrimitive_found
      cookieParamDecoder_DecodeArray_found
      cookieParamDecoder_DecodeObject_found)

text \<open>
  The theorem at inputs on which the array and object operations return: parameters that
  are present, a header that is present with an empty value, and a header that is absent.
\<close>

theorem found_witness:
  "foundOf (pathParamDecoder_DecodeArray sample_ext
          (Some [(''id'', '';id=1,2'')]) ''id''
          \<lparr>Style = ''matrix'', Explode = False\<rparr>
          (arrayOf (typed ''string''))) = Some True
   \<and> foundOf (pathParamDecoder_DecodeObject sample_ext
          (Some [(''id'', ''a=1,b=2'')]) ''id''
          \<lparr>Style = ''simple'', Explode = True\<rparr>
          (objectWith [(''a'', typed ''string''), (''b'', typed ''string'')])) = Some True
   \<and> foundOf (urlValuesDecoder_DecodeArray sample_ext
          ([(''ids'', [''a,b''])]) ''ids''
          \<lparr>Style = ''form'', Explode = False\<rparr>
          (arrayOf (typed ''string''))) = Some True
   \<and> foundOf (headerParamDecoder_DecodePrimitive sample_ext
          ([(''X-Id'', [[]])]) ''X-Id''
          \<lparr>Style = ''simple'', Explode = False\<rparr>
          (typed ''string'')) = Some True
   \<and> foundOf (headerParamDecoder_DecodeArray sample_ext
          ([(''X-Ids'', [''a,b''])]) ''X-Ids''
          \<lparr>Style = ''simple'', Explode = False\<rparr>
          (arrayOf (typed ''string''))) = Some True
   \<and> foundOf (headerParamDecoder_DecodeObject sample_ext
          ([(''X-Tags'', [''a=1,b=2''])]) ''Other''
          \<lparr>Style = ''simple'', Explode = True\<rparr>
          (objectWith [(''a'', typed ''string'')])) = Some False
   \<and> foundOf (cookieParamDecoder_DecodeArray sample_ext
          (sampleCookies) ''id''
          \<lparr>Style = ''form'', Explode = False\<rparr>
          (arrayOf (typed ''string''))) = Some True
   \<and> foundOf (cookieParamDecoder_DecodeObject sample_ext
          (sampleCookies) ''id''
          \<lparr>Style = ''form'', Explode = False\<rparr>
          (objectWith [(''a'', typed ''string'')])) = Some True"
proof -
  have r0: "pathParamDecoder_DecodeArray sample_ext
          (Some [(''id'', '';id=1,2'')]) ''id''
          \<lparr>Style = ''matrix'', Explode = False\<rparr>
          (arrayOf (typed ''string'')) \<noteq> None"
    by code_simp
  have r1: "pathParamDecoder_DecodeObject sample_ext
          (Some [(''id'', ''a=1,b=2'')]) ''id''
          \<lparr>Style = ''simple'', Explode = True\<rparr>
          (objectWith [(''a'', typed ''string''), (''b'', typed ''string'')]) \<noteq> None"
    by code_simp
  have r2: "urlValuesDecoder_DecodeArray sample_ext
          ([(''ids'', [''a,b''])]) ''ids''
          \<lparr>Style = ''form'', Explode = False\<rparr>
          (arrayOf (typed ''string'')) \<noteq> None"
    by code_simp
  have r4: "headerParamDecoder_DecodeArray sample_ext
          ([(''X-Ids'', [''a,b''])]) ''X-Ids''
          \<lparr>Style = ''simple'', Explode = False\<rparr>
          (arrayOf (typed ''string'')) \<noteq> None"
    by code_simp
  have r5: "headerParamDecoder_DecodeObject sample_ext
          ([(''X-Tags'', [''a=1,b=2''])]) ''Other''
          \<lparr>Style = ''simple'', Explode = True\<rparr>
          (objectWith [(''a'', typed ''string'')]) \<noteq> None"
    by code_simp
  have r6: "cookieParamDecoder_DecodeArray sample_ext
          (sampleCookies) ''id''
          \<lparr>Style = ''form'', Explode = False\<rparr>
          (arrayOf (typed ''string'')) \<noteq> None"
    by code_simp
  have r7: "cookieParamDecoder_DecodeObject sample_ext
          (sampleCookies) ''id''
          \<lparr>Style = ''form'', Explode = False\<rparr>
          (objectWith [(''a'', typed ''string'')]) \<noteq> None"
    by code_simp
  show ?thesis
    using r0 r1 r2 r4 r5 r6 r7
      found_iff_accepted_and_present
        [where ext = sample_ext and pathParams = "Some [(''id'', '';id=1,2'')]" and param = "''id''"
           and sm = "\<lparr>Style = ''matrix'', Explode = False\<rparr>"
           and schema = "arrayOf (typed ''string'')"]
      found_iff_accepted_and_present
        [where ext = sample_ext and pathParams = "Some [(''id'', ''a=1,b=2'')]" and param = "''id''"
           and sm = "\<lparr>Style = ''simple'', Explode = True\<rparr>"
           and schema = "objectWith [(''a'', typed ''string''), (''b'', typed ''string'')]"]
      found_iff_accepted_and_present
        [where ext = sample_ext and vs = "[(''ids'', [''a,b''])]" and param = "''ids''"
           and sm = "\<lparr>Style = ''form'', Explode = False\<rparr>"
           and schema = "arrayOf (typed ''string'')"]
      found_iff_accepted_and_present
        [where ext = sample_ext and header = "[(''X-Id'', [[]])]" and param = "''X-Id''"
           and sm = "\<lparr>Style = ''simple'', Explode = False\<rparr>"
           and schema = "typed ''string''"]
      found_iff_accepted_and_present
        [where ext = sample_ext and header = "[(''X-Ids'', [''a,b''])]" and param = "''X-Ids''"
           and sm = "\<lparr>Style = ''simple'', Explode = False\<rparr>"
           and schema = "arrayOf (typed ''string'')"]
      found_iff_accepted_and_present
        [where ext = sample_ext and header = "[(''X-Tags'', [''a=1,b=2''])]" and param = "''Other''"
           and sm = "\<lparr>Style = ''simple'', Explode = True\<rparr>"
           and schema = "objectWith [(''a'', typed ''string'')]"]
      found_iff_accepted_and_present
        [where ext = sample_ext and cookies = "sampleCookies" and param = "''id''"
           and sm = "\<lparr>Style = ''form'', Explode = False\<rparr>"
           and schema = "arrayOf (typed ''string'')"]
      found_iff_accepted_and_present
        [where ext = sample_ext and cookies = "sampleCookies" and param = "''id''"
           and sm = "\<lparr>Style = ''form'', Explode = False\<rparr>"
           and schema = "objectWith [(''a'', typed ''string'')]"]
    by (simp add: sample_ext_def sampleCookies_def)
qed

text \<open>
  C2 as stated fails: the path parameters contain the name \<open>id\<close> with the empty string
  as its value, and \<open>found\<close> is false; the query contains the name \<open>p\<close>, and the
  object operation, which looks for the schema's property \<open>b\<close> among the decoded
  properties, gives \<open>found\<close> false.
\<close>

theorem found_false_though_name_present:
  "map_of [(''id'', [])] ''id'' \<noteq> None
   \<and> foundOf (pathParamDecoder_DecodePrimitive sample_ext (Some [(''id'', [])]) ''id''
        \<lparr>Style = ''simple'', Explode = False\<rparr> (typed ''string'')) = Some False
   \<and> map_of [(''p'', [''a,1''])] ''p'' \<noteq> None
   \<and> foundOf (urlValuesDecoder_DecodeObject sample_ext [(''p'', [''a,1''])] ''p''
        \<lparr>Style = ''form'', Explode = False\<rparr> (objectWith [(''b'', typed ''string'')])) = Some False"
  by code_simp

subsection \<open>Composed schemas in styled decoding\<close>

lemma dv_allOf_stops:
  assumes "\<forall>r \<in> set pre. \<exists>v f. r = Some (v, f, None) \<and> v \<noteq> VNil"
    and "v = VNil \<or> e \<noteq> None \<or> post = []"
  shows "dv_allOf (pre @ Some (v, f, e) # post) (v0, f0, e0)
         = Some (v, f0 \<or> f \<or> (\<exists>r \<in> set pre. foundOf r = Some True), e)"
  using assms
proof (induction pre arbitrary: v0 f0 e0)
  case Nil
  then show ?case by (cases post) auto
next
  case (Cons r pre)
  from Cons.prems(1) obtain v1 f1 where r: "r = Some (v1, f1, None)" "v1 \<noteq> VNil" by auto
  from Cons.prems have "dv_allOf (pre @ Some (v, f, e) # post) (v1, f0 \<or> f1, None)
         = Some (v, (f0 \<or> f1) \<or> f \<or> (\<exists>r \<in> set pre. foundOf r = Some True), e)"
    by (intro Cons.IH) auto
  with r show ?case by (auto simp: foundOf_def)
qed

text \<open>
  C3, as the code has it. When the schema's \<^verbatim>\<open>allOf\<close> list is not empty, styled decoding
  decodes the input against the members in order and stops at the first member that yields
  the nil value or an error, or else at the final member; it returns the value and the
  error of that member, the last one decoded, and \<open>found\<close> is true when that member or a
  member before it found input. The members after it are not decoded.
\<close>

theorem allOf_returns_last_decoded_member:
  assumes "AllOf schema = pre @ m # post"
    and "\<forall>sr \<in> set pre. \<exists>v' f'. decodeValue ext dec param sm sr required = Some (v', f', None)
                                   \<and> v' \<noteq> VNil"
    and "decodeValue ext dec param sm m required = Some (v, f, e)"
    and "v = VNil \<or> e \<noteq> None \<or> post = []"
  shows "decodeValue ext dec param sm schema required
         = Some (v, f \<or> (\<exists>sr \<in> set pre. foundOf (decodeValue ext dec param sm sr required) = Some True), e)"
proof -
  let ?d = "\<lambda>sr. decodeValue ext dec param sm sr required"
  have "decodeValue ext dec param sm schema required
        = dv_allOf (map ?d pre @ Some (v, f, e) # map ?d post) (VNil, False, None)"
    using assms(1,3) by (subst decodeValue.simps) simp
  also have "\<dots> = Some (v, False \<or> f \<or> (\<exists>r \<in> set (map ?d pre). foundOf r = Some True), e)"
    using assms(2,4) by (intro dv_allOf_stops) auto
  also have "(\<exists>r \<in> set (map ?d pre). foundOf r = Some True)
             = (\<exists>sr \<in> set pre. foundOf (?d sr) = Some True)"
    by auto
  finally show ?thesis by simp
qed

text \<open>
  The theorem at a header \<open>X: abc\<close> and the members string, boolean, string: the loop
  stops at the second member, whose error it returns.
\<close>

theorem allOf_witness:
  "decodeValue sample_ext (headerParamDecoder [(''X'', [''abc''])]) ''X''
       \<lparr>Style = ''simple'', Explode = False\<rparr>
       (allOfSchema [typed ''string'', typed ''boolean'', typed ''string'']) False
     = Some (VNil, True,
         Some (ParseError KindInvalidFormat (Some ''abc'') ''an invalid boolean'' (Some (Strconv ErrSyntax)) []))"
proof -
  let ?dec = "headerParamDecoder [(''X'', [''abc''])]"
  let ?sm = "\<lparr>Style = ''simple'', Explode = False\<rparr>"
  have a: "AllOf (allOfSchema [typed ''string'', typed ''boolean'', typed ''string''])
           = [typed ''string''] @ typed ''boolean'' # [typed ''string'']"
    by (simp add: allOfSchema_def)
  have b: "decodeValue sample_ext ?dec ''X'' ?sm (typed ''string'') False = Some (Str ''abc'', True, None)"
    by code_simp
  have c: "decodeValue sample_ext ?dec ''X'' ?sm (typed ''boolean'') False
           = Some (VNil, True, Some (ParseError KindInvalidFormat (Some ''abc'') ''an invalid boolean'' (Some (Strconv ErrSyntax)) []))"
    by code_simp
  have p: "\<forall>sr \<in> set [typed ''string'']. \<exists>v' f'.
             decodeValue sample_ext ?dec ''X'' ?sm sr False = Some (v', f', None) \<and> v' \<noteq> VNil"
    using b by auto
  show ?thesis
    using allOf_returns_last_decoded_member [OF a p c] by simp
qed

text \<open>
  C3 as stated fails where the loop stops on an error: the string member decodes the header
  to \<open>abc\<close>, the boolean member fails, and the value returned is the failing member's
  nil, not the value of the last member that succeeded.
\<close>

theorem allOf_drops_earlier_value_on_error:
  "decodeValue sample_ext (headerParamDecoder [(''X'', [''abc''])]) ''X''
       \<lparr>Style = ''simple'', Explode = False\<rparr> (typed ''string'') False
     = Some (Str ''abc'', True, None)
   \<and> decodeValue sample_ext (headerParamDecoder [(''X'', [''abc''])]) ''X''
       \<lparr>Style = ''simple'', Explode = False\<rparr> (allOfSchema [typed ''string'', typed ''boolean'']) False
     = Some (VNil, True,
         Some (ParseError KindInvalidFormat (Some ''abc'') ''an invalid boolean'' (Some (Strconv ErrSyntax)) []))"
  by code_simp

subsection \<open>Arrays\<close>

lemma parseArrayLoop_all:
  assumes "\<forall>x \<in> set raw. \<exists>v. f x = Some (v, None) \<and> v \<noteq> VNil"
  shows "parseArrayLoop f i raw acc = Some (acc @ map (\<lambda>x. fst (the (f x))) raw, None)"
  using assms
proof (induction raw arbitrary: i acc)
  case Nil
  then show ?case by simp
next
  case (Cons x raw)
  from Cons.prems obtain v where v: "f x = Some (v, None)" "v \<noteq> VNil" by auto
  from Cons.prems have "parseArrayLoop f (Suc i) raw (acc @ [v])
      = Some ((acc @ [v]) @ map (\<lambda>x. fst (the (f x))) raw, None)"
    by (intro Cons.IH) auto
  with v show ?case by simp
qed

lemma parseArrayLoop_nil:
  assumes "\<forall>x \<in> set pre. \<exists>v. f x = Some (v, None) \<and> v \<noteq> VNil"
    and "f x = Some (VNil, None)"
  shows "parseArrayLoop f i (pre @ x # post) acc = Some ([], None)"
  using assms
proof (induction pre arbitrary: i acc)
  case Nil
  then show ?case by simp
next
  case (Cons y pre)
  from Cons.prems obtain v where v: "f y = Some (v, None)" "v \<noteq> VNil" by auto
  from Cons.prems have "parseArrayLoop f (Suc i) (pre @ x # post) (acc @ [v]) = Some ([], None)"
    by (intro Cons.IH) auto
  with v show ?case by simp
qed

lemma parseArrayLoop_error:
  assumes "\<forall>x \<in> set pre. \<exists>v. f x = Some (v, None) \<and> v \<noteq> VNil"
    and "f x = Some (v, Some e)"
  shows "parseArrayLoop f i (pre @ x # post) acc = Some ([], Some (itemError (i + length pre) e))"
  using assms
proof (induction pre arbitrary: i acc)
  case Nil
  then show ?case by simp
next
  case (Cons y pre)
  from Cons.prems obtain w where w: "f y = Some (w, None)" "w \<noteq> VNil" by auto
  from Cons.prems have "parseArrayLoop f (Suc i) (pre @ x # post) (acc @ [w])
      = Some ([], Some (itemError (Suc i + length pre) e))"
    by (intro Cons.IH) auto
  with w show ?case by simp
qed

text \<open>
  C4, as the code has it, for \<^verbatim>\<open>parseArray\<close> with the primitive parser \<open>p\<close> and for
  \<^verbatim>\<open>urlValuesDecoder.parseArray\<close> with the value parser \<open>q\<close>. The items are parsed in
  order. If an item parses to nil and every item before it parses without error to a value
  that is not nil, the whole array is nil, without error. If every item parses without error
  to a value that is not nil, the result holds the parsed items in input order. If an item
  fails to parse and every item before it parses without error to a value that is not nil,
  the array is nil and the error is the item's, wrapped with the item's index.
\<close>

theorem parseArray_all_or_nothing:
  "(let p = (\<lambda>x. parsePrimitive ext x (Items schemaRef)) in
      ((\<forall>y \<in> set pre. \<exists>v. p y = Some (v, None) \<and> v \<noteq> VNil) \<and> p x = Some (VNil, None)
         \<longrightarrow> parseArray ext (pre @ x # post) schemaRef = Some ([], None))
    \<and> ((\<forall>y \<in> set raw. \<exists>v. p y = Some (v, None) \<and> v \<noteq> VNil)
         \<longrightarrow> parseArray ext raw schemaRef = Some (map (\<lambda>y. fst (the (p y))) raw, None))
    \<and> ((\<forall>y \<in> set pre. \<exists>v. p y = Some (v, None) \<and> v \<noteq> VNil) \<and> p x = Some (w, Some e)
         \<longrightarrow> parseArray ext (pre @ x # post) schemaRef
               = Some ([], Some (itemError (length pre) e))))
   \<and> (let q = (\<lambda>x. parseValue ext x items) in
      Items schemaRef = Some items \<longrightarrow>
      ((\<forall>y \<in> set pre. \<exists>v. q y = Some (v, None) \<and> v \<noteq> VNil) \<and> q x = Some (VNil, None)
         \<longrightarrow> urlValuesDecoder_parseArray ext (pre @ x # post) sm schemaRef = Some ([], None))
    \<and> ((\<forall>y \<in> set raw. \<exists>v. q y = Some (v, None) \<and> v \<noteq> VNil)
         \<longrightarrow> urlValuesDecoder_parseArray ext raw sm schemaRef
               = Some (map (\<lambda>y. fst (the (q y))) raw, None))
    \<and> ((\<forall>y \<in> set pre. \<exists>v. q y = Some (v, None) \<and> v \<noteq> VNil) \<and> q x = Some (w, Some e)
         \<longrightarrow> urlValuesDecoder_parseArray ext (pre @ x # post) sm schemaRef
               = Some ([], Some (itemError (length pre) e))))"
  unfolding Let_def parseArray_def urlValuesDecoder_parseArray_def
  using parseArrayLoop_nil [of pre "\<lambda>x. parsePrimitive ext x (Items schemaRef)" x 0 post "[]"]
        parseArrayLoop_all [of raw "\<lambda>x. parsePrimitive ext x (Items schemaRef)" 0 "[]"]
        parseArrayLoop_error [of pre "\<lambda>x. parsePrimitive ext x (Items schemaRef)" x w e 0 post "[]"]
        parseArrayLoop_nil [of pre "\<lambda>x. parseValue ext x items" x 0 post "[]"]
        parseArrayLoop_all [of raw "\<lambda>x. parseValue ext x items" 0 "[]"]
        parseArrayLoop_error [of pre "\<lambda>x. parseValue ext x items" x w e 0 post "[]"]
  by simp

text \<open>
  The theorem at \<open>[a, "", b]\<close> and \<open>[a, b]\<close> with string items and at
  \<open>[true, x]\<close> with boolean items.
\<close>

theorem parseArray_witness:
  "parseArray sample_ext [''a'', [], ''b''] (arrayOf (typed ''string'')) = Some ([], None)
   \<and> parseArray sample_ext [''a'', ''b''] (arrayOf (typed ''string''))
       = Some ([Str ''a'', Str ''b''], None)
   \<and> parseArray sample_ext [''true'', ''x''] (arrayOf (typed ''boolean''))
       = Some ([], Some (itemError 1
           (ParseError KindInvalidFormat (Some ''x'') ''an invalid boolean'' (Some (Strconv ErrSyntax)) [])))
   \<and> urlValuesDecoder_parseArray sample_ext [''a'', [], ''b'']
         \<lparr>Style = ''form'', Explode = True\<rparr> (arrayOf (typed ''string''))
       = Some ([], None)
   \<and> urlValuesDecoder_parseArray sample_ext [''a'', ''b'']
         \<lparr>Style = ''form'', Explode = True\<rparr> (arrayOf (typed ''string''))
       = Some ([Str ''a'', Str ''b''], None)
   \<and> urlValuesDecoder_parseArray sample_ext [''true'', ''x'']
         \<lparr>Style = ''form'', Explode = True\<rparr> (arrayOf (typed ''boolean''))
       = Some ([], Some (itemError 1
           (ParseError KindInvalidFormat (Some ''x'') ''an invalid boolean'' (Some (Strconv ErrSyntax)) [])))"
proof -
  have i: "Items (arrayOf (typed ''string'')) = Some (typed ''string'')"
          "Items (arrayOf (typed ''boolean'')) = Some (typed ''boolean'')"
    by (simp_all add: arrayOf_def)
  have p: "parsePrimitive sample_ext ''a'' (Some (typed ''string'')) = Some (Str ''a'', None)"
          "parsePrimitive sample_ext ''b'' (Some (typed ''string'')) = Some (Str ''b'', None)"
          "parsePrimitive sample_ext [] (Some (typed ''string'')) = Some (VNil, None)"
          "parsePrimitive sample_ext ''true'' (Some (typed ''boolean'')) = Some (Bool True, None)"
          "parsePrimitive sample_ext ''x'' (Some (typed ''boolean''))
             = Some (VNil, Some (ParseError KindInvalidFormat (Some ''x'') ''an invalid boolean'' (Some (Strconv ErrSyntax)) []))"
    by code_simp+
  have q: "parseValue sample_ext ''a'' (typed ''string'') = Some (Str ''a'', None)"
          "parseValue sample_ext ''b'' (typed ''string'') = Some (Str ''b'', None)"
          "parseValue sample_ext [] (typed ''string'') = Some (VNil, None)"
          "parseValue sample_ext ''true'' (typed ''boolean'') = Some (Bool True, None)"
          "parseValue sample_ext ''x'' (typed ''boolean'')
             = Some (VNil, Some (ParseError KindInvalidFormat (Some ''x'') ''an invalid boolean'' (Some (Strconv ErrSyntax)) []))"
    by code_simp+
  show ?thesis
    using parseArray_all_or_nothing
            [where ext = sample_ext and schemaRef = "arrayOf (typed ''string'')"
               and items = "typed ''string''" and pre = "[''a'']" and x = "[]" and post = "[''b'']"
               and raw = "[''a'', ''b'']" and sm = "\<lparr>Style = ''form'', Explode = True\<rparr>"]
          parseArray_all_or_nothing
            [where ext = sample_ext and schemaRef = "arrayOf (typed ''boolean'')"
               and items = "typed ''boolean''" and pre = "[''true'']" and x = "''x''" and post = "[]"
               and raw = "[]" and sm = "\<lparr>Style = ''form'', Explode = True\<rparr>" and w = VNil
               and e = "ParseError KindInvalidFormat (Some ''x'') ''an invalid boolean'' (Some (Strconv ErrSyntax)) []"]
    by (simp add: Let_def i p q)
qed

text \<open>
  C4 as stated fails when an item before the one that parses to nil does not parse: the
  second item of \<open>[x, ""]\<close> parses to nil, and the array with boolean items decodes to
  the first item's error.
\<close>

theorem parseArray_error_despite_null_element:
  "parsePrimitive sample_ext [] (Items (arrayOf (typed ''boolean''))) = Some (VNil, None)
   \<and> parseArray sample_ext [''x'', []] (arrayOf (typed ''boolean''))
     = Some ([], Some (ParseError KindOther None []
         (Some (ParseError KindInvalidFormat (Some ''x'') ''an invalid boolean'' (Some (Strconv ErrSyntax)) []))
         [Idx 0]))"
  by code_simp

subsection \<open>Paths and messages of parse errors\<close>

lemma parsePrimitiveCase_err_Path:
  "parsePrimitiveCase ext raw s ty = (v, Some e) \<Longrightarrow> Path e = []"
  by (auto simp: parsePrimitiveCase_def numErr_def split: if_splits sum.splits)

lemma parsePrimitiveLoop_err_Path:
  "parsePrimitiveLoop ext raw s typs acc = (v, Some e) \<Longrightarrow>
   (\<And>e'. snd acc = Some e' \<Longrightarrow> Path e' = []) \<Longrightarrow> Path e = []"
proof (induction typs arbitrary: acc)
  case Nil
  then show ?case by simp
next
  case (Cons ty typs)
  obtain v' e' where c: "parsePrimitiveCase ext raw s ty = (v', e')"
    by (cases "parsePrimitiveCase ext raw s ty")
  show ?case
  proof (cases e')
    case None
    with Cons.prems c show ?thesis by simp
  next
    case (Some x)
    with c have "Path x = []" by (simp add: parsePrimitiveCase_err_Path)
    with Cons.prems(1) c Some Cons.IH [of "(v', Some x)"] show ?thesis by simp
  qed
qed

lemma parsePrimitive_err_Path:
  "parsePrimitive ext raw s = Some (v, Some e) \<Longrightarrow> Path e = []"
  by (auto simp: parsePrimitive_def split: if_splits option.splits dest: parsePrimitiveLoop_err_Path)

lemma Join_map_Key: "Join (map (fmt_seg \<circ> Key) keys) sep = Join keys sep"
  by (induction keys sep rule: Join.induct) (simp_all add: fmt_seg_def)

lemma Error_ParseError:
  "Error ext (ParseError k v r c p) =
     (if Path (ParseError k v r c p) = [] then innerError ext (ParseError k v r c p)
      else ''path '' @ Join (map fmt_seg (Path (ParseError k v r c p))) ''.'' @ '': ''
           @ innerError ext (ParseError k v r c p))"
  by simp

text \<open>
  C5, as the code has it. An error of the primitive parser carries no path. The array
  decoders wrap it in a \<^verbatim>\<open>ParseError\<close> whose path is the item's index, the object
  assembler in one whose path is the property's keys from the root to the leaf. The message
  of a \<^verbatim>\<open>ParseError\<close> with a path is \<open>path p0.p1.\<dots>: \<close> followed by the chain of
  reasons, and that chain alone when the path is empty; for a number that does not parse the
  chain is \<open>value\<close> and the raw string, without quotes, then \<open>an invalid\<close> and the type,
  then the message of the \<^verbatim>\<open>strconv\<close> sentinel.
\<close>

theorem ParseError_path_and_rendering:
  "(parsePrimitive ext raw schema = Some (w, Some e) \<longrightarrow>
      Path (itemError i e) = [Idx i]
    \<and> Error ext (itemError i e) = ''path '' @ itoa i @ '': '' @ innerError ext e
    \<and> Path (handlePropParseError ext keys e) = map Key keys
    \<and> (keys \<noteq> [] \<longrightarrow>
         Error ext (handlePropParseError ext keys e)
           = ''path '' @ Join keys ''.'' @ '': '' @ innerError ext e))
   \<and> innerError ext (ParseError KindInvalidFormat (Some raw) (''an invalid '' @ ty)
                        (Some (Strconv se)) [])
       = ''value '' @ raw @ '': an invalid '' @ ty @ '': '' @ strconvMessage se
   \<and> Error ext (ParseError k v r c p) =
       (if Path (ParseError k v r c p) = [] then innerError ext (ParseError k v r c p)
        else ''path '' @ Join (map fmt_seg (Path (ParseError k v r c p))) ''.'' @ '': ''
             @ innerError ext (ParseError k v r c p))"
proof (intro conjI impI)
  assume a: "parsePrimitive ext raw schema = Some (w, Some e)"
  then have pe: "isParseError e" and pa: "Path e = []"
    by (auto dest: parsePrimitive_err parsePrimitive_err_Path)
  from pe pa show "Path (itemError i e) = [Idx i]"
    by (simp add: itemError_def)
  from pe pa show "Error ext (itemError i e) = ''path '' @ itoa i @ '': '' @ innerError ext e"
    by (simp add: itemError_def fmt_seg_def)
  from pe pa show "Path (handlePropParseError ext keys e) = map Key keys"
    by (simp add: handlePropParseError_def pathFromKeys_def)
  assume "keys \<noteq> []"
  with pe pa show "Error ext (handlePropParseError ext keys e)
           = ''path '' @ Join keys ''.'' @ '': '' @ innerError ext e"
    by (simp add: handlePropParseError_def pathFromKeys_def Join_map_Key)
next
  show "innerError ext (ParseError KindInvalidFormat (Some raw) (''an invalid '' @ ty)
                        (Some (Strconv se)) [])
       = ''value '' @ raw @ '': an invalid '' @ ty @ '': '' @ strconvMessage se"
    by (simp add: isParseError_def)
next
  show "Error ext (ParseError k v r c p) =
       (if Path (ParseError k v r c p) = [] then innerError ext (ParseError k v r c p)
        else ''path '' @ Join (map fmt_seg (Path (ParseError k v r c p))) ''.'' @ '': ''
             @ innerError ext (ParseError k v r c p))"
    by (rule Error_ParseError)
qed

text \<open>
  The theorem at the string \<open>x\<close>, which is not a boolean, as the item with index 2 of an
  array and as the property \<open>a.b\<close> of an object.
\<close>

theorem ParseError_witness:
  "Path (itemError 2 (ParseError KindInvalidFormat (Some ''x'') ''an invalid boolean'' (Some (Strconv ErrSyntax)) []))
     = [Idx 2]
   \<and> Error sample_ext (itemError 2
        (ParseError KindInvalidFormat (Some ''x'') ''an invalid boolean'' (Some (Strconv ErrSyntax)) []))
     = ''path 2: value x: an invalid boolean: invalid syntax''
   \<and> Error sample_ext (handlePropParseError sample_ext [''a'', ''b'']
        (ParseError KindInvalidFormat (Some ''x'') ''an invalid boolean'' (Some (Strconv ErrSyntax)) []))
     = ''path a.b: value x: an invalid boolean: invalid syntax''"
proof -
  have p: "parsePrimitive sample_ext ''x'' (Some (typed ''boolean''))
      = Some (VNil, Some (ParseError KindInvalidFormat (Some ''x'') ''an invalid boolean'' (Some (Strconv ErrSyntax)) []))"
    by code_simp
  have i: "itoa 2 = ''2''" by code_simp
  show ?thesis
    using ParseError_path_and_rendering
      [where ext = sample_ext and raw = "''x''" and schema = "Some (typed ''boolean'')" and w = VNil
         and e = "ParseError KindInvalidFormat (Some ''x'') ''an invalid boolean'' (Some (Strconv ErrSyntax)) []"
         and i = 2 and keys = "[''a'', ''b'']" and ty = "''boolean''" and se = ErrSyntax]
      p i
    by (simp add: isParseError_def strconvMessage_def)
qed

text \<open>
  C5 as stated fails. The error of the claim's example, with the path \<open>a.b.0\<close>, the value
  \<open>x\<close>, the reason \<open>an invalid integer\<close> and the cause \<^verbatim>\<open>strconv.ErrRange\<close>, is
  rendered without quotes around the value and without the prefix \<open>strconv:\<close>. And when
  a \<^verbatim>\<open>ParseError\<close> with the path \<open>a.b\<close> wraps one with the path \<open>0\<close>, the path
  of the whole starts with the inner segment: \<^verbatim>\<open>Path\<close> puts the cause's segments before
  the wrapper's own.
\<close>

theorem ParseError_rendering_differs:
  "Error sample_ext (ParseError KindOther None []
       (Some (ParseError KindInvalidFormat (Some ''x'') ''an invalid integer'' (Some (Strconv ErrRange)) []))
       [Key ''a'', Key ''b'', Idx 0])
     = ''path a.b.0: value x: an invalid integer: value out of range''
   \<and> Path (ParseError KindOther None []
       (Some (ParseError KindOther None []
          (Some (ParseError KindInvalidFormat (Some ''x'') ''an invalid integer'' (Some (Strconv ErrRange)) []))
          [Idx 0]))
       [Key ''a'', Key ''b''])
     = [Idx 0, Key ''a'', Key ''b'']"
  by code_simp

subsection \<open>oneOf in styled decoding and in parseValue\<close>

text \<open>
  The \<^verbatim>\<open>oneOf\<close> loops count the members that match, and \<^verbatim>\<open>parseValue\<close> never
  panics on a schema.
\<close>

lemma dv_oneOf_Some:
  assumes "\<forall>r \<in> set rs. r \<noteq> None"
  shows "\<exists>value found n. dv_oneOf rs (v0, f0, n0) = Some (value, found, n)
           \<and> n0 \<le> n
           \<and> (n = n0 \<longrightarrow> value = v0)
           \<and> (n0 < n \<longrightarrow> value \<noteq> VNil)
           \<and> ((\<exists>r \<in> set rs. \<exists>v f e. r = Some (v, f, e) \<and> v \<noteq> VNil) \<longrightarrow> n0 < n)"
  using assms
proof (induction rs arbitrary: v0 f0 n0)
  case Nil
  then show ?case by simp
next
  case (Cons r rs)
  from Cons.prems obtain v f e where r: "r = Some (v, f, e)" by (cases r) auto
  from Cons.prems have rest: "\<forall>r \<in> set rs. r \<noteq> None" by simp
  show ?case
  proof (cases "v = VNil")
    case True
    from Cons.IH [OF rest, of v0 "f0 \<or> f" n0] r True show ?thesis by auto
  next
    case False
    from Cons.IH [OF rest, of v "f0 \<or> f" "Suc n0"] r False show ?thesis
      by (auto simp: Suc_le_eq dest: Suc_lessD)
  qed
qed

lemma pv_oneOf_count:
  assumes "\<forall>r \<in> set rs. r \<noteq> None"
  shows "\<exists>value. pv_oneOf rs (v0, n0)
           = Some (value, n0 + length (filter (\<lambda>r. \<exists>v. r = Some (v, None)) rs))"
  using assms
proof (induction rs arbitrary: v0 n0)
  case Nil
  then show ?case by simp
next
  case (Cons r rs)
  from Cons.prems obtain v e where r: "r = Some (v, e)" by (cases r) auto
  from Cons.prems have rest: "\<forall>r \<in> set rs. r \<noteq> None" by simp
  show ?case
  proof (cases e)
    case None
    from Cons.IH [OF rest, of v "Suc n0"] r None show ?thesis by auto
  next
    case (Some x)
    from Cons.IH [OF rest, of v0 n0] r Some show ?thesis by auto
  qed
qed

lemma parseValue_Some: "parseValue ext v schema \<noteq> None"
proof (induction ext v schema rule: parseValue.induct)
  case (1 ext v schema)
  have pa: "\<forall>r \<in> set rs. r \<noteq> None \<Longrightarrow> pv_allOf rs acc \<noteq> None" for rs acc
    by (induction rs arbitrary: acc) (auto split: option.splits)
  have pn: "\<forall>r \<in> set rs. r \<noteq> None \<Longrightarrow> pv_anyOf rs e \<noteq> None" for rs e
    by (induction rs arbitrary: e) (auto split: option.splits)
  have po: "\<forall>r \<in> set rs. r \<noteq> None \<Longrightarrow> pv_oneOf rs acc \<noteq> None" for rs acc
    using pv_oneOf_count [of rs "fst acc" "snd acc"] by auto
  show ?case
  proof (cases "AllOf schema \<noteq> []")
    case True
    with 1(1) have "\<forall>r \<in> set (map (\<lambda>sr. parseValue ext v sr) (AllOf schema)). r \<noteq> None" by auto
    from pa [OF this] True show ?thesis by (subst parseValue.simps) simp
  next
    case a: False
    show ?thesis
    proof (cases "AnyOf schema \<noteq> []")
      case True
      with a 1(2) have "\<forall>r \<in> set (map (\<lambda>sr. parseValue ext v sr) (AnyOf schema)). r \<noteq> None" by auto
      from pn [OF this] a True show ?thesis by (subst parseValue.simps) simp
    next
      case b: False
      show ?thesis
      proof (cases "OneOf schema \<noteq> []")
        case True
        with a b 1(3) have "\<forall>r \<in> set (map (\<lambda>sr. parseValue ext v sr) (OneOf schema)). r \<noteq> None" by auto
        from po [OF this] a b True show ?thesis
          by (subst parseValue.simps) (auto split: option.splits)
      next
        case False
        with a b show ?thesis
          by (subst parseValue.simps) (simp add: parsePrimitive_def)
      qed
    qed
  qed
qed

text \<open>
  C6. Let the schema have neither \<^verbatim>\<open>allOf\<close> nor \<^verbatim>\<open>anyOf\<close> members, so that its
  \<^verbatim>\<open>oneOf\<close> members decide. Styled decoding decodes every member; when each member's
  decoding returns and at least one yields a value that is not nil, however many do, it
  returns a value that is not nil and no error. \<^verbatim>\<open>urlValuesDecoder.parseValue\<close> returns
  the nil value and the error \<open>decoding oneOf failed: n schemas matched\<close> whenever the
  number \<open>n\<close> of members that parse without error is greater than one.
\<close>

theorem oneOf_styled_accepts_parseValue_rejects_multiple_matches:
  "AllOf schema = [] \<and> AnyOf schema = [] \<longrightarrow>
     ((\<forall>sr \<in> set (OneOf schema). decodeValue ext dec param sm sr required \<noteq> None)
      \<and> (\<exists>sr \<in> set (OneOf schema). \<exists>v f e.
            decodeValue ext dec param sm sr required = Some (v, f, e) \<and> v \<noteq> VNil)
      \<longrightarrow> (\<exists>value found. decodeValue ext dec param sm schema required = Some (value, found, None)
                          \<and> value \<noteq> VNil))
   \<and> (1 < length (filter (\<lambda>sr. \<exists>v. parseValue ext raw sr = Some (v, None)) (OneOf schema))
      \<longrightarrow> parseValue ext raw schema
            = Some (VNil, Some (oneOfFailed
                (length (filter (\<lambda>sr. \<exists>v. parseValue ext raw sr = Some (v, None)) (OneOf schema))))))"
proof (intro impI conjI; elim conjE)
  assume a: "AllOf schema = []" "AnyOf schema = []"
    and r: "\<forall>sr \<in> set (OneOf schema). decodeValue ext dec param sm sr required \<noteq> None"
    and m: "\<exists>sr \<in> set (OneOf schema). \<exists>v f e.
            decodeValue ext dec param sm sr required = Some (v, f, e) \<and> v \<noteq> VNil"
  let ?rs = "map (\<lambda>sr. decodeValue ext dec param sm sr required) (OneOf schema)"
  from m have ne: "OneOf schema \<noteq> []" by auto
  from r have "\<forall>r \<in> set ?rs. r \<noteq> None" by auto
  from dv_oneOf_Some [OF this, of VNil False 0] m
  obtain res found n where d: "dv_oneOf ?rs (VNil, False, 0) = Some (res, found, n)"
    and n: "0 < n" "res \<noteq> VNil"
    by fastforce
  from a ne d n have "decodeValue ext dec param sm schema required = Some (res, found, None)"
    by (subst decodeValue.simps) simp
  with n show "\<exists>value found. decodeValue ext dec param sm schema required = Some (value, found, None)
                          \<and> value \<noteq> VNil"
    by blast
next
  let ?n = "length (filter (\<lambda>sr. \<exists>v. parseValue ext raw sr = Some (v, None)) (OneOf schema))"
  assume a: "AllOf schema = []" "AnyOf schema = []" and n: "1 < ?n"
  let ?rs = "map (\<lambda>sr. parseValue ext raw sr) (OneOf schema)"
  from n have ne: "OneOf schema \<noteq> []" by auto
  have "\<forall>r \<in> set ?rs. r \<noteq> None"
    using parseValue_Some [of ext raw] by (simp add: image_iff)
  from pv_oneOf_count [OF this, of VNil 0]
  obtain res where "pv_oneOf ?rs (VNil, 0)
      = Some (res, length (filter (\<lambda>r. \<exists>v. r = Some (v, None)) ?rs))"
    by auto
  moreover have "length (filter (\<lambda>r. \<exists>v. r = Some (v, None)) ?rs) = ?n"
    by (simp add: filter_map comp_def)
  ultimately have "pv_oneOf ?rs (VNil, 0) = Some (res, ?n)" by simp
  with a ne n show "parseValue ext raw schema = Some (VNil, Some (oneOfFailed ?n))"
    by (subst parseValue.simps) simp
qed

text \<open>
  The theorem at the raw value \<open>abc\<close> and two string members, which both match: styled
  decoding of the query parameter returns the string, \<^verbatim>\<open>parseValue\<close> returns the error.
\<close>

theorem oneOf_witness:
  "decodeValue sample_ext (urlValuesDecoder [(''q'', [''abc''])]) ''q''
       \<lparr>Style = ''form'', Explode = True\<rparr> (oneOfSchema [typed ''string'', typed ''string'']) False
     = Some (Str ''abc'', True, None)
   \<and> parseValue sample_ext ''abc'' (oneOfSchema [typed ''string'', typed ''string''])
     = Some (VNil, Some (ErrorString ''decoding oneOf failed: 2 schemas matched''))"
proof -
  let ?dec = "urlValuesDecoder [(''q'', [''abc''])]"
  let ?sm = "\<lparr>Style = ''form'', Explode = True\<rparr>"
  let ?s = "oneOfSchema [typed ''string'', typed ''string'']"
  have s: "AllOf ?s = [] \<and> AnyOf ?s = []" "OneOf ?s = [typed ''string'', typed ''string'']"
    by (simp_all add: oneOfSchema_def)
  have d: "decodeValue sample_ext ?dec ''q'' ?sm (typed ''string'') False = Some (Str ''abc'', True, None)"
    by code_simp
  have p: "parseValue sample_ext ''abc'' (typed ''string'') = Some (Str ''abc'', None)"
    by code_simp
  have v: "decodeValue sample_ext ?dec ''q'' ?sm ?s False = Some (Str ''abc'', True, None)"
    by code_simp
  have m: "oneOfFailed (Suc (Suc 0)) = ErrorString ''decoding oneOf failed: 2 schemas matched''"
    by code_simp
  show ?thesis
    using oneOf_styled_accepts_parseValue_rejects_multiple_matches
      [where schema = ?s and ext = sample_ext and dec = ?dec and param = "''q''" and sm = ?sm
         and required = False and raw = "''abc''"]
      s d p v m
    by simp
qed

subsection \<open>Media-type dispatch\<close>

text \<open>
  C7. The media type is what \<^verbatim>\<open>parseMediaType\<close> makes of the content type. When no
  decoder is registered for it, \<^verbatim>\<open>decodeBody\<close> returns a \<^verbatim>\<open>ParseError\<close> of kind
  \<^verbatim>\<open>KindUnsupportedFormat\<close> whose reason is \<open>unsupported content type\<close> followed by
  the quoted media type. For every content type other than the empty one, for which the two
  functions panic, registering a decoder and then unregistering it both return, leave no
  decoder registered for the content type, and \<^verbatim>\<open>decodeBody\<close> for that media type
  returns the same error again.
\<close>

theorem decodeBody_unsupported_media_type:
  "(bodyDecoders (parseMediaType ext (contentTypeOf ext body header)) = None
    \<longrightarrow> decodeBody ext bodyDecoders body header schema encFn
          = Some ([], VNil, Some (ParseError KindUnsupportedFormat None
              (''unsupported content type ''
               @ Quote ext (parseMediaType ext (contentTypeOf ext body header)))
              None [])))
   \<and> (contentType \<noteq> [] \<longrightarrow>
        (\<exists>registered unregistered.
           RegisterBodyDecoder contentType (Some decoder) bodyDecoders = Some registered
         \<and> UnregisterBodyDecoder contentType registered = Some unregistered
         \<and> RegisteredBodyDecoder contentType unregistered = None
         \<and> (parseMediaType ext (contentTypeOf ext body header) = contentType
            \<longrightarrow> decodeBody ext unregistered body header schema encFn
                  = Some ([], VNil, Some (ParseError KindUnsupportedFormat None
                      (''unsupported content type '' @ Quote ext contentType) None [])))))"
  by (auto simp: decodeBody_def Let_def unsupportedCT_def prefixUnsupportedCT_def
                 RegisterBodyDecoder_def UnregisterBodyDecoder_def RegisteredBodyDecoder_def)

text \<open>
  The theorem at the header \<open>Content-Type: foo/bar; charset=utf-8\<close> with an empty
  registry: unsupported before the decoder is registered, decoded while it is, and
  unsupported again after it is unregistered.
\<close>

theorem decodeBody_witness:
  "decodeBody sample_ext Map.empty sampleBody sampleHeader None None
     = Some ([], VNil, Some (ParseError KindUnsupportedFormat None
         (''unsupported content type '' @ [CHR 0x22] @ ''foo/bar'' @ [CHR 0x22]) None []))
   \<and> RegisterBodyDecoder ''foo/bar'' (Some nilBodyDecoder) Map.empty
     = Some [''foo/bar'' \<mapsto> nilBodyDecoder]
   \<and> decodeBody sample_ext [''foo/bar'' \<mapsto> nilBodyDecoder] sampleBody sampleHeader None None
     = Some (''foo/bar'', VNil, None)
   \<and> UnregisterBodyDecoder ''foo/bar'' [''foo/bar'' \<mapsto> nilBodyDecoder]
     = Some ([''foo/bar'' \<mapsto> nilBodyDecoder](''foo/bar'' := None))
   \<and> decodeBody sample_ext ([''foo/bar'' \<mapsto> nilBodyDecoder](''foo/bar'' := None))
         sampleBody sampleHeader None None
     = Some ([], VNil, Some (ParseError KindUnsupportedFormat None
         (''unsupported content type '' @ [CHR 0x22] @ ''foo/bar'' @ [CHR 0x22]) None []))"
proof -
  have m: "parseMediaType sample_ext (contentTypeOf sample_ext sampleBody sampleHeader) = ''foo/bar''"
    by (simp add: sample_ext_def parseMediaType_spec_def contentTypeOf_def Header_Get_def
                  headerCT_def sampleHeader_def sampleBody_def)
  have q: "Quote sample_ext ''foo/bar'' = [CHR 0x22] @ ''foo/bar'' @ [CHR 0x22]"
    by (simp add: sample_ext_def)
  have d: "decodeBody sample_ext [''foo/bar'' \<mapsto> nilBodyDecoder] sampleBody sampleHeader None None
     = Some (''foo/bar'', VNil, None)"
    by (simp add: decodeBody_def m nilBodyDecoder_def)
  show ?thesis
    using decodeBody_unsupported_media_type
      [where ext = sample_ext and bodyDecoders = Map.empty and body = sampleBody
         and header = sampleHeader and schema = None and encFn = None
         and contentType = "''foo/bar''" and decoder = nilBodyDecoder]
      m q d
    by (auto simp: RegisterBodyDecoder_def UnregisterBodyDecoder_def)
qed

subsection \<open>Styled parameters on an empty surface\<close>

text \<open>
  C10. Once the parameter's serialization method is resolved, to whatever style and explode
  flag, \<^verbatim>\<open>decodeStyledParameter\<close> returns the nil value, \<open>found = false\<close> and no error
  for a path parameter when the request has no path parameters, and for a query parameter
  when it has no query values: no decoder is built and the serialization method is not looked
  at.
\<close>

theorem decodeStyledParameter_empty_surface:
  "Parameter_SerializationMethod ext param = Inr sm \<longrightarrow>
   (In param = ''path'' \<and> (PathParams input = None \<or> PathParams input = Some [])
    \<or> In param = ''query'' \<and> QueryParams input = [])
   \<longrightarrow> decodeStyledParameter ext param input = Some (VNil, False, None)"
  by (auto simp: decodeStyledParameter_def)

text \<open>
  The theorem at a path parameter of style deepObject and a query parameter of style matrix,
  which the decoders reject: no error on the empty surface, while the same path parameter on
  a request that has path parameters gives the invalid-serialization-method error.
\<close>

theorem decodeStyledParameter_witness:
  "decodeStyledParameter sample_ext
       \<lparr>Name = ''id'', In = ''path'', Required = True, Schema_p = Some (typed ''string''),
        Style_p = ''deepObject'', Explode_p = True\<rparr>
       \<lparr>PathParams = Some [], QueryParams = [], Header = [], Cookie = sampleCookies\<rparr>
     = Some (VNil, False, None)
   \<and> decodeStyledParameter sample_ext
       \<lparr>Name = ''id'', In = ''query'', Required = True, Schema_p = Some (typed ''string''),
        Style_p = ''matrix'', Explode_p = True\<rparr>
       \<lparr>PathParams = Some [], QueryParams = [], Header = [], Cookie = sampleCookies\<rparr>
     = Some (VNil, False, None)
   \<and> decodeStyledParameter sample_ext
       \<lparr>Name = ''id'', In = ''path'', Required = True, Schema_p = Some (typed ''string''),
        Style_p = ''deepObject'', Explode_p = True\<rparr>
       \<lparr>PathParams = Some [(''id'', ''5'')], QueryParams = [], Header = [], Cookie = sampleCookies\<rparr>
     = Some (VNil, False, Some (invalidSerializationMethodErr sample_ext
                                  \<lparr>Style = ''deepObject'', Explode = True\<rparr>))"
proof -
  have r: "Parameter_SerializationMethod sample_ext
             \<lparr>Name = ''id'', In = ''path'', Required = True, Schema_p = Some (typed ''string''),
              Style_p = ''deepObject'', Explode_p = True\<rparr>
           = Inr \<lparr>Style = ''deepObject'', Explode = True\<rparr>"
          "Parameter_SerializationMethod sample_ext
             \<lparr>Name = ''id'', In = ''query'', Required = True, Schema_p = Some (typed ''string''),
              Style_p = ''matrix'', Explode_p = True\<rparr>
           = Inr \<lparr>Style = ''matrix'', Explode = True\<rparr>"
    by (simp_all add: sample_ext_def SerializationMethod_spec_def)
  have c: "decodeStyledParameter sample_ext
       \<lparr>Name = ''id'', In = ''path'', Required = True, Schema_p = Some (typed ''string''),
        Style_p = ''deepObject'', Explode_p = True\<rparr>
       \<lparr>PathParams = Some [(''id'', ''5'')], QueryParams = [], Header = [], Cookie = sampleCookies\<rparr>
     = Some (VNil, False, Some (invalidSerializationMethodErr sample_ext
                                  \<lparr>Style = ''deepObject'', Explode = True\<rparr>))"
    by code_simp
  show ?thesis
    using decodeStyledParameter_empty_surface
      [where ext = sample_ext and sm = "\<lparr>Style = ''deepObject'', Explode = True\<rparr>"
         and param = "\<lparr>Name = ''id'', In = ''path'', Required = True,
                        Schema_p = Some (typed ''string''), Style_p = ''deepObject'', Explode_p = True\<rparr>"
         and input = "\<lparr>PathParams = Some [], QueryParams = [], Header = [], Cookie = sampleCookies\<rparr>"]
      decodeStyledParameter_empty_surface
      [where ext = sample_ext and sm = "\<lparr>Style = ''matrix'', Explode = True\<rparr>"
         and param = "\<lparr>Name = ''id'', In = ''query'', Required = True,
                        Schema_p = Some (typed ''string''), Style_p = ''matrix'', Explode_p = True\<rparr>"
         and input = "\<lparr>PathParams = Some [], QueryParams = [], Header = [], Cookie = sampleCookies\<rparr>"]
      r c
    by simp
qed

subsection \<open>The object assembler\<close>

text \<open>
  A key with the prefix of an object property splits into at least two keys, so
  \<^verbatim>\<open>deepSet\<close> writes below the top level; it panics rather than replace a top-level
  entry that is not a map. A value of the primitive parser is not a map. So an entry made
  for a property that is neither an array nor an object stays as it is to the end of the loop.
\<close>

lemma splitOn_nonempty: "splitOn sep cur s \<noteq> []"
  by (induction sep cur s rule: splitOn.induct) (subst splitOn.simps, auto split: list.splits)

lemma splitOn_two:
  "sep \<noteq> [] \<Longrightarrow> 2 \<le> length (splitOn sep cur (a @ sep @ b))"
proof (induction a arbitrary: cur)
  case Nil
  then have "HasPrefix (sep @ b) sep" by (simp add: HasPrefix_def)
  with Nil show ?case
    using splitOn_nonempty [of sep "[]" b]
    by (subst splitOn.simps) (cases "splitOn sep [] b"; simp)
next
  case (Cons c a)
  show ?case
  proof (cases "HasPrefix ((c # a) @ sep @ b) sep")
    case True
    with Cons.prems show ?thesis
      using splitOn_nonempty [of sep "[]" "drop (length sep) ((c # a) @ sep @ b)"]
      by (subst splitOn.simps) (cases "splitOn sep [] (drop (length sep) ((c # a) @ sep @ b))"; simp)
  next
    case False
    with Cons.prems Cons.IH [of "c # cur"] show ?thesis
      by (subst splitOn.simps) simp
  qed
qed

lemma Split_prefixed:
  assumes "HasPrefix prop (propName @ urlDecoderDelimiter)"
  shows "\<exists>k0 k1 ks. Split ext prop urlDecoderDelimiter = k0 # k1 # ks"
proof -
  from assms obtain b where "prop = propName @ urlDecoderDelimiter @ b"
    unfolding HasPrefix_def by (metis append_assoc append_take_drop_id)
  then have "2 \<le> length (splitOn urlDecoderDelimiter [] prop)"
    using splitOn_two [of urlDecoderDelimiter "[]" propName b] by (simp add: urlDecoderDelimiter_def)
  then show ?thesis
    by (cases "splitOn urlDecoderDelimiter [] prop" rule: list.exhaust [case_names Nil Cons];
        cases "tl (splitOn urlDecoderDelimiter [] prop)")
       (auto simp: Split_def urlDecoderDelimiter_def)
qed

lemma deepSet_keeps:
  assumes "deepSet m (k0 # k1 # ks) x = Some m'"
    and "map_of m p = Some v" and "\<forall>sub. v \<noteq> Obj sub"
  shows "map_of m' p = Some v"
  using assms
  by (auto simp: update_conv' split: option.splits val.splits if_splits)

lemma parsePrimitiveCase_not_Obj: "fst (parsePrimitiveCase ext raw s ty) \<noteq> Obj sub"
  by (auto simp: parsePrimitiveCase_def numErr_def split: sum.splits)

lemma parsePrimitiveLoop_not_Obj:
  "fst acc \<noteq> Obj sub \<Longrightarrow> fst (parsePrimitiveLoop ext raw s typs acc) \<noteq> Obj sub"
proof (induction typs arbitrary: acc)
  case Nil
  then show ?case by simp
next
  case (Cons ty typs)
  obtain v e where c: "parsePrimitiveCase ext raw s ty = (v, e)"
    by (cases "parsePrimitiveCase ext raw s ty")
  then have "v \<noteq> Obj sub" using parsePrimitiveCase_not_Obj [of ext raw s ty sub] by simp
  with c Cons.IH [of "(v, e)"] show ?case by (cases e) simp_all
qed

lemma parsePrimitive_not_Obj: "parsePrimitive ext raw s = Some (v, e) \<Longrightarrow> v \<noteq> Obj sub"
proof (cases "raw = []")
  case True
  then show "parsePrimitive ext raw s = Some (v, e) \<Longrightarrow> v \<noteq> Obj sub"
    by (auto simp: parsePrimitive_def)
next
  case False
  assume "parsePrimitive ext raw s = Some (v, e)"
  with False obtain x where "parsePrimitiveLoop ext raw x (Slice (Type x)) (VNil, None) = (v, e)"
    by (auto simp: parsePrimitive_def split: option.splits)
  with parsePrimitiveLoop_not_Obj [of "(VNil, None)" sub ext raw x "Slice (Type x)"]
  show "v \<noteq> Obj sub" by simp
qed

lemma objectProperty_keeps:
  assumes "objectProperty ext schema props propName rest obj = Some (Inr obj')"
    and "map_of obj p = Some v" and "\<forall>sub. v \<noteq> Obj sub"
  shows "map_of obj' p = Some v"
  using assms
proof (induction rest arbitrary: obj)
  case Nil
  then show ?case by simp
next
  case (Cons a rest)
  obtain pr x where a: "a = (pr, x)" by (cases a)
  show ?case
  proof (cases "HasPrefix pr (propName @ urlDecoderDelimiter)")
    case False
    with Cons a show ?thesis by simp
  next
    case True
    then obtain k0 k1 ks where k: "Split ext pr urlDecoderDelimiter = k0 # k1 # ks"
      using Split_prefixed by blast
    from Cons.prems(1) a True k obtain y obj1
      where d: "deepSet obj (k0 # k1 # ks) y = Some obj1"
        and r: "objectProperty ext schema props propName rest obj1 = Some (Inr obj')"
      by (auto simp: Let_def split: sum.splits if_splits option.splits)
    from deepSet_keeps [OF d Cons.prems(2,3)] have "map_of obj1 p = Some v" .
    from Cons.IH [OF r this Cons.prems(3)] show ?thesis .
  qed
qed

lemma makeObjectLoop_keeps:
  assumes "makeObjectLoop ext schema props ps obj = Some (Some final, None)"
    and "map_of obj p = Some v" and "\<forall>sub. v \<noteq> Obj sub" and "p \<notin> fst ` set ps"
  shows "map_of final p = Some v"
  using assms
proof (induction ps arbitrary: obj)
  case Nil
  then show ?case by simp
next
  case (Cons a ps)
  obtain q qs where a: "a = (q, qs)" by (cases a)
  with Cons.prems(4) have q: "q \<noteq> p" and rest: "p \<notin> fst ` set ps" by auto
  from Cons.prems(1) a obtain obj1
    where l: "makeObjectLoop ext schema props ps obj1 = Some (Some final, None)"
      and o: "(\<exists>x. obj1 = AList.update q x obj)
              \<or> objectProperty ext schema props q props obj = Some (Inr obj1)"
    by (auto split: if_splits option.splits sum.splits) blast+
  from o have "map_of obj1 p = Some v"
  proof
    assume "\<exists>x. obj1 = AList.update q x obj"
    with q Cons.prems(2) show ?thesis by (auto simp: update_conv')
  next
    assume "objectProperty ext schema props q props obj = Some (Inr obj1)"
    from objectProperty_keeps [OF this Cons.prems(2,3)] show ?thesis .
  qed
  from Cons.IH [OF l this Cons.prems(3) rest] show ?case .
qed

lemma makeObjectLoop_primitive:
  assumes "makeObjectLoop ext schema props ps obj = Some (Some final, None)"
    and "distinct (map fst ps)" and "(p, psch) \<in> set ps"
    and "\<not> Is (Type psch) ''array''" and "\<not> Is (Type psch) ''object''"
  shows "\<exists>v. map_of final p = Some v
             \<and> parsePrimitive ext (getOrEmpty props p) (Some psch) = Some (v, None)"
  using assms(1,2,3)
proof (induction ps arbitrary: obj)
  case Nil
  then show ?case by simp
next
  case (Cons a ps)
  obtain q qs where a: "a = (q, qs)" by (cases a)
  show ?case
  proof (cases "(p, psch) = (q, qs)")
    case True
    with Cons.prems(1) a assms(4,5) obtain v
      where v: "parsePrimitive ext (getOrEmpty props p) (Some psch) = Some (v, None)"
        and l: "makeObjectLoop ext schema props ps (AList.update p v obj) = Some (Some final, None)"
      by (auto split: option.splits)
    from Cons.prems(2) a True have "p \<notin> fst ` set ps" by auto
    moreover have "map_of (AList.update p v obj) p = Some v" by (simp add: update_conv')
    moreover from v have "\<forall>sub. v \<noteq> Obj sub" by (auto dest: parsePrimitive_not_Obj)
    ultimately have "map_of final p = Some v" using makeObjectLoop_keeps [OF l] by blast
    with v show ?thesis by blast
  next
    case False
    with Cons.prems(3) a have m: "(p, psch) \<in> set ps" by auto
    from Cons.prems(2) have d: "distinct (map fst ps)" by simp
    from Cons.prems(1) a obtain obj1
      where l: "makeObjectLoop ext schema props ps obj1 = Some (Some final, None)"
      by (auto split: if_splits option.splits sum.splits)
    from Cons.IH [OF l d m] show ?thesis .
  qed
qed

text \<open>
  C9. Whenever \<^verbatim>\<open>makeObject\<close> returns a map, then for every property that the schema
  declares (under one name once, as in a Go map) and whose type is neither array nor object,
  the map has an entry under the property's name: the value that the primitive parser gives
  for the input under that name, read as the empty string when the input has no such key.
  For a key that is absent from the input the entry is nil.
\<close>

theorem makeObject_has_declared_primitive_properties:
  "makeObject ext props schema = Some (Some obj, None) \<longrightarrow>
   distinct (map fst (Properties schema)) \<longrightarrow>
   (p, psch) \<in> set (Properties schema) \<longrightarrow>
   \<not> Is (Type psch) ''array'' \<longrightarrow> \<not> Is (Type psch) ''object'' \<longrightarrow>
     (\<exists>v. map_of obj p = Some v
          \<and> parsePrimitive ext (getOrEmpty props p) (Some psch) = Some (v, None))
   \<and> (map_of props p = None \<longrightarrow> map_of obj p = Some VNil)"
proof (intro impI)
  assume a: "makeObject ext props schema = Some (Some obj, None)"
    "distinct (map fst (Properties schema))" "(p, psch) \<in> set (Properties schema)"
    "\<not> Is (Type psch) ''array''" "\<not> Is (Type psch) ''object''"
  from makeObjectLoop_primitive [OF a(1) [unfolded makeObject_def] a(2-5)]
  obtain v where v: "map_of obj p = Some v"
    "parsePrimitive ext (getOrEmpty props p) (Some psch) = Some (v, None)"
    by blast
  moreover have "map_of props p = None \<longrightarrow> v = VNil"
    using v(2) by (auto simp: getOrEmpty_def parsePrimitive_def)
  ultimately show "(\<exists>v. map_of obj p = Some v
          \<and> parsePrimitive ext (getOrEmpty props p) (Some psch) = Some (v, None))
   \<and> (map_of props p = None \<longrightarrow> map_of obj p = Some VNil)"
    by auto
qed

text \<open>
  The theorem at the input \<open>a = 1\<close> and a schema with a string property \<open>a\<close>, a
  boolean property \<open>b\<close> and an array property \<open>c\<close>: the entry for \<open>b\<close> is nil.
\<close>

theorem makeObject_witness:
  "makeObject sample_ext [(''a'', ''1'')]
       (objectWith [(''a'', typed ''string''), (''b'', typed ''boolean''),
                    (''c'', arrayOf (typed ''string''))])
     = Some (Some [(''a'', Str ''1''), (''b'', VNil), (''c'', Strs [[]])], None)
   \<and> map_of [(''a'', ''1'')] ''b'' = None
   \<and> map_of [(''a'', Str ''1''), (''b'', VNil), (''c'', Strs [[]])] ''b'' = Some VNil"
proof -
  let ?s = "objectWith [(''a'', typed ''string''), (''b'', typed ''boolean''),
                        (''c'', arrayOf (typed ''string''))]"
  have m: "makeObject sample_ext [(''a'', ''1'')] ?s
           = Some (Some [(''a'', Str ''1''), (''b'', VNil), (''c'', Strs [[]])], None)"
    by code_simp
  have d: "distinct (map fst (Properties ?s))" "(''b'', typed ''boolean'') \<in> set (Properties ?s)"
    by (simp_all add: objectWith_def)
  have t: "\<not> Is (Type (typed ''boolean'')) ''array''" "\<not> Is (Type (typed ''boolean'')) ''object''"
    by (simp_all add: Is_def typed_def)
  show ?thesis
    using makeObject_has_declared_primitive_properties
      [where ext = sample_ext and props = "[(''a'', ''1'')]" and schema = ?s
         and obj = "[(''a'', Str ''1''), (''b'', VNil), (''c'', Strs [[]])]"
         and p = "''b''" and psch = "typed ''boolean''"]
      m d t
    by simp
qed

subsection \<open>The primitive parser\<close>

text \<open>
  C8. For every schema reference, also the nil one, and whatever its type set is,
  \<^verbatim>\<open>parsePrimitive\<close> applied to the empty string returns the nil value and no error.
\<close>

theorem parsePrimitive_empty_is_nil: "parsePrimitive ext [] schema = Some (VNil, None)"
  by (simp add: parsePrimitive_def)

end
